theory Spec2Isabelle
  imports Complex_Main "HOL-Library.Product_Lexorder" "HOL-Library.Log_Nat"
begin

section \<open>Values, requests and responses\<close>

text \<open>
  The handlers are Express request handlers over a Prisma client. A request body is the
  result of \<^verbatim>\<open>express.json()\<close>, that is a JavaScript value built by \<^verbatim>\<open>JSON.parse\<close>;
  a field that the body does not carry reads as \<^verbatim>\<open>undefined\<close>. Every finite IEEE double
  is a rational number, so numbers are rationals (negative zero is read as zero, which has
  the same truthiness).
\<close>

datatype jsval =
    Undefined
  | Null
  | Bool bool
  | Num rat
  | Str string
  | Arr "jsval list"
  | Obj "(string \<times> jsval) list"

text \<open>JavaScript truthiness, the test behind \<^verbatim>\<open>!x\<close>, \<^verbatim>\<open>x && y\<close> and \<^verbatim>\<open>x ? y : z\<close>.\<close>

fun truthy :: "jsval \<Rightarrow> bool" where
  "truthy Undefined = False"
| "truthy Null = False"
| "truthy (Bool b) = b"
| "truthy (Num n) = (n \<noteq> 0)"
| "truthy (Str s) = (s \<noteq> [])"
| "truthy (Arr xs) = True"
| "truthy (Obj kvs) = True"

text \<open>
  A nullable column that the data of an insert does not give is NULL in the stored row,
  which the answer then shows as \<^verbatim>\<open>null\<close>.
\<close>

definition orNull :: "jsval \<Rightarrow> jsval" where
  "orNull v = (if v = Undefined then Null else v)"

text \<open>\<^verbatim>\<open>req.user\<close>, set by the authentication middleware from the bearer token.\<close>

record requester =
  user_id :: string
  user_email :: string
  user_role :: string

record request =
  user :: "requester option"
  params :: "string \<Rightarrow> string"
  query :: "string \<Rightarrow> string option"
  body :: "string \<Rightarrow> jsval"

text \<open>\<^verbatim>\<open>req.user?.id\<close> and \<^verbatim>\<open>req.user?.role !== 'ADMIN'\<close>.\<close>

definition userId :: "request \<Rightarrow> string option" where
  "userId req = map_option user_id (user req)"

definition notAdmin :: "request \<Rightarrow> bool" where
  "notAdmin req = (map_option user_role (user req) \<noteq> Some ''ADMIN'')"

text \<open>
  The uniform envelope \<^verbatim>\<open>{ success, message?, data? }\<close> together with the HTTP status
  (\<^verbatim>\<open>res.json\<close> alone answers 200).
\<close>

record 'a response =
  status_code :: nat
  success :: bool
  message :: "string option"
  data :: "'a option"

definition failure :: "nat \<Rightarrow> string \<Rightarrow> 'a response" where
  "failure code msg = \<lparr>status_code = code, success = False, message = Some msg, data = None\<rparr>"

definition ok :: "'a \<Rightarrow> 'a response" where
  "ok d = \<lparr>status_code = 200, success = True, message = None, data = Some d\<rparr>"

definition ok_msg :: "nat \<Rightarrow> string \<Rightarrow> 'a \<Rightarrow> 'a response" where
  "ok_msg code msg d = \<lparr>status_code = code, success = True, message = Some msg, data = Some d\<rparr>"

text \<open>
  A Prisma call is a promise: it is fulfilled with a value or rejected. Every handler wraps
  its body in \<^verbatim>\<open>try { ... } catch (error) { ... 500 ... }\<close>, so a rejection is only ever
  observed as the 500 answer and carries no payload in the model.
\<close>

datatype rejection = Rejected

type_synonym 'a promise = "rejection + 'a"

section \<open>Tables\<close>

text \<open>
  The persistence layer is a relational database reached through Prisma; a table is the
  list of its rows. Columns that a handler copies from the request body without looking
  at them keep the JavaScript value; timestamps are milliseconds as integers.
\<close>

record user_row =
  u_id :: string
  u_email :: string
  u_password :: string
  u_role :: string
  u_status :: string
  u_services :: "string option"
  u_lastLoginAt :: "int option"

record farm =
  farm_id :: string
  farm_name :: jsval
  farm_description :: jsval
  farm_location :: jsval
  farm_latitude :: jsval
  farm_longitude :: jsval
  farm_area :: jsval
  farm_ownerId :: string
  farm_createdAt :: int

record herd =
  herd_id :: string
  herd_name :: jsval
  herd_description :: jsval
  herd_animalType :: jsval
  herd_totalCount :: jsval
  herd_healthyCount :: jsval
  herd_sickCount :: jsval
  herd_missingCount :: jsval
  herd_farmId :: string

record animal =
  animal_id :: string
  animal_tagId :: string
  animal_status :: string
  animal_herdId :: string

text \<open>
  Modelled from the spec: the Prisma schema, which declares the alert status enumeration,
  is not part of the sources. Its members are the four states the data model lists (NEW,
  ACKNOWLEDGED, IN\_PROGRESS, RESOLVED); they are also the four values that
  \<^verbatim>\<open>getAlertStats\<close> counts. A text that names none of them is not a value of the column.
\<close>

datatype AlertStatus = NEW | ACKNOWLEDGED | IN_PROGRESS | RESOLVED

fun parseAlertStatus :: "string \<Rightarrow> AlertStatus option" where
  "parseAlertStatus s =
     (if s = ''NEW'' then Some NEW
      else if s = ''ACKNOWLEDGED'' then Some ACKNOWLEDGED
      else if s = ''IN_PROGRESS'' then Some IN_PROGRESS
      else if s = ''RESOLVED'' then Some RESOLVED
      else None)"

record alert =
  alert_id :: string
  alert_type :: string
  alert_severity :: string
  alert_status :: AlertStatus
  alert_title :: string
  alert_message :: string
  alert_module :: string
  alert_farmId :: "string option"
  alert_assignedToId :: "string option"
  alert_actionTaken :: "string option"
  alert_resolvedBy :: "string option"
  alert_resolvedAt :: "int option"
  alert_createdAt :: int

record report =
  report_id :: string
  report_title :: jsval
  report_type :: jsval
  report_module :: jsval
  report_description :: jsval
  report_periodStart :: "jsval option"
  report_periodEnd :: "jsval option"
  report_dataSnapshot :: string
  report_charts :: "string option"
  report_generatedById :: string
  report_generatedAt :: int

text \<open>
  A land zone's \<open>degradationLevel\<close> is a number. The handler that creates a zone does
  not set it, and the schema that says whether the column may then be NULL is not part of
  the sources: \<open>None\<close> is a zone without a level, should there be one.
\<close>

record landZone =
  zone_id :: string
  zone_name :: string
  zone_region :: string
  zone_degradationLevel :: "rat option"

record db =
  users :: "user_row list"
  farms :: "farm list"
  herds :: "herd list"
  animals :: "animal list"
  alerts :: "alert list"
  reports :: "report list"
  landZones :: "landZone list"

section \<open>Alerts\<close>

text \<open>
  The handlers hand values of the request body to \<^verbatim>\<open>prisma.alert.update\<close> without a
  type test. For a scalar column the client takes, in \<^verbatim>\<open>data\<close>, the value itself or the
  object \<^verbatim>\<open>{ set: value }\<close>, which \<open>operand\<close> unwraps; a key that is \<^verbatim>\<open>undefined\<close>
  leaves the column alone, and \<^verbatim>\<open>null\<close> is a value of a nullable column only. Anything
  else (another object, an array, a value of another type) fails the client's validation,
  which is \<open>None\<close> here and the 500 answer of the handler's \<^verbatim>\<open>catch\<close>.
\<close>

datatype 'a column_write = Keep | Put 'a

definition operand :: "jsval \<Rightarrow> jsval" where
  "operand v =
     (case v of
        Obj kvs \<Rightarrow> (case kvs of [(k, w)] \<Rightarrow> (if k = ''set'' then w else v) | _ \<Rightarrow> v)
      | _ \<Rightarrow> v)"

definition requiredText :: "jsval \<Rightarrow> string option" where
  "requiredText v = (case operand v of Str s \<Rightarrow> Some s | _ \<Rightarrow> None)"

definition nullableText :: "jsval \<Rightarrow> string option column_write option" where
  "nullableText v =
     (case v of
        Undefined \<Rightarrow> Some Keep
      | _ \<Rightarrow> (case operand v of
                Null \<Rightarrow> Some (Put None)
              | Str s \<Rightarrow> Some (Put (Some s))
              | _ \<Rightarrow> None))"

text \<open>The \<^verbatim>\<open>data\<close> argument of \<^verbatim>\<open>prisma.alert.update\<close>, column by column.\<close>

record alert_patch =
  set_status :: "AlertStatus column_write"
  set_assignedToId :: "string option column_write"
  set_actionTaken :: "string option column_write"
  set_resolvedBy :: "string column_write"
  set_resolvedAt :: "int column_write"

definition apply_patch :: "alert_patch \<Rightarrow> alert \<Rightarrow> alert" where
  "apply_patch p a =
     a\<lparr>alert_status := (case set_status p of Keep \<Rightarrow> alert_status a | Put s \<Rightarrow> s),
       alert_assignedToId := (case set_assignedToId p of Keep \<Rightarrow> alert_assignedToId a | Put u \<Rightarrow> u),
       alert_actionTaken := (case set_actionTaken p of Keep \<Rightarrow> alert_actionTaken a | Put v \<Rightarrow> v),
       alert_resolvedBy := (case set_resolvedBy p of Keep \<Rightarrow> alert_resolvedBy a | Put u \<Rightarrow> Some u),
       alert_resolvedAt := (case set_resolvedAt p of Keep \<Rightarrow> alert_resolvedAt a | Put t \<Rightarrow> Some t)\<rparr>"

fun update_row :: "string \<Rightarrow> alert_patch \<Rightarrow> alert list \<Rightarrow> alert list" where
  "update_row i p [] = []"
| "update_row i p (a # as) =
     (if alert_id a = i then apply_patch p a # as else a # update_row i p as)"

text \<open>
  \<^verbatim>\<open>prisma.alert.update({ where: { id }, data })\<close>: the row with that id is rewritten and
  returned; the promise is rejected when no row has the id, or when \<open>assignedToId\<close> is
  set to a text that is not the id of a user (the relation \<open>assignedTo\<close>).
\<close>

definition alert_update :: "db \<Rightarrow> string \<Rightarrow> alert_patch \<Rightarrow> (alert \<times> db) promise" where
  "alert_update d i p =
     (case find (\<lambda>a. alert_id a = i) (alerts d) of
        None \<Rightarrow> Inl Rejected
      | Some a \<Rightarrow>
          (case set_assignedToId p of
             Put (Some u) \<Rightarrow>
               if u \<in> set (map u_id (users d))
               then Inr (apply_patch p a, d\<lparr>alerts := update_row i p (alerts d)\<rparr>)
               else Inl Rejected
           | _ \<Rightarrow> Inr (apply_patch p a, d\<lparr>alerts := update_row i p (alerts d)\<rparr>)))"


text \<open>
  \<^verbatim>\<open>updateAlertStatus\<close>: \<open>status\<close> must be truthy (400 otherwise). The update data is
  \<^verbatim>\<open>{ status, actionTaken, ...(status === 'RESOLVED' && { resolvedBy: req.user?.id,
  resolvedAt: new Date() }) }\<close>; \<open>now\<close> is the clock read by \<^verbatim>\<open>new Date()\<close>. The test
  \<^verbatim>\<open>status === 'RESOLVED'\<close> is on the body's value, which is the string or is not, whereas
  the status written is the one the client reads from it.
\<close>

definition statusPatch :: "request \<Rightarrow> int \<Rightarrow> alert_patch option" where
  "statusPatch req now =
     (let status = body req ''status''; actionTaken = body req ''actionTaken'' in
      case requiredText status of
        None \<Rightarrow> None
      | Some s \<Rightarrow>
          (case parseAlertStatus s of
             None \<Rightarrow> None
           | Some st \<Rightarrow>
               (case nullableText actionTaken of
                  None \<Rightarrow> None
                | Some act \<Rightarrow>
                    Some \<lparr>set_status = Put st, set_assignedToId = Keep, set_actionTaken = act,
                          set_resolvedBy =
                            (if status = Str ''RESOLVED''
                             then (case userId req of None \<Rightarrow> Keep | Some u \<Rightarrow> Put u)
                             else Keep),
                          set_resolvedAt =
                            (if status = Str ''RESOLVED'' then Put now else Keep)\<rparr>)))"

definition updateAlertStatus :: "db \<Rightarrow> request \<Rightarrow> int \<Rightarrow> alert response \<times> db" where
  "updateAlertStatus d req now =
     (if \<not> truthy (body req ''status'') then (failure 400 ''Status is required'', d)
      else
        (case statusPatch req now of
           None \<Rightarrow> (failure 500 ''Failed to update alert'', d)
         | Some p \<Rightarrow>
             (case alert_update d (params req ''id'') p of
                Inr (a, d') \<Rightarrow> (ok_msg 200 ''Alert updated successfully'' a, d')
              | Inl e \<Rightarrow> (failure 500 ''Failed to update alert'', d))))"

text \<open>
  \<^verbatim>\<open>getAlerts\<close>. The optional query parameters \<open>status\<close>, \<open>type\<close>, \<open>severity\<close> and
  \<open>module\<close> each add an equality filter when truthy (a non-empty string). A requester who
  is not an administrator is further restricted to
  \<^verbatim>\<open>OR: [{ assignedToId: userId }, { farm: { ownerId: userId } }]\<close>. The rows are ordered
  by severity, then creation time, both descending, and cut by \<^verbatim>\<open>take: 100\<close>.
  Rows that agree in both are left in the order of the table; the database promises no
  order among them.
  (In a request without a user both alternatives have an \<^verbatim>\<open>undefined\<close> operand; Prisma
  reads an \<^verbatim>\<open>OR\<close> without any effective alternative as selecting no row. The
  \<^verbatim>\<open>include\<close> of the assignee and the farm decorates the returned alerts.)

  The severity column is an enumeration of the schema, which the sources do not contain:
  \<open>rank\<close> is the order the database sorts it by, and \<open>known\<close> tells whether a
  (column, text) pair names a member of that column's enumeration; a filter value that
  does not is refused by the client (500).
\<close>

definition given :: "request \<Rightarrow> string \<Rightarrow> string option" where
  "given req k = (case query req k of Some s \<Rightarrow> (if s = [] then None else Some s) | None \<Rightarrow> None)"

definition matches :: "string option \<Rightarrow> string \<Rightarrow> bool" where
  "matches f v = (case f of None \<Rightarrow> True | Some s \<Rightarrow> v = s)"

definition farmOwnedBy :: "db \<Rightarrow> string option \<Rightarrow> string \<Rightarrow> bool" where
  "farmOwnedBy d fid u =
     (case fid of
        None \<Rightarrow> False
      | Some f \<Rightarrow> (case find (\<lambda>x. farm_id x = f) (farms d) of
                    None \<Rightarrow> False
                  | Some x \<Rightarrow> farm_ownerId x = u))"

definition alertVisible :: "db \<Rightarrow> request \<Rightarrow> alert \<Rightarrow> bool" where
  "alertVisible d req a =
     (if notAdmin req
      then (case userId req of
              None \<Rightarrow> False
            | Some u \<Rightarrow> alert_assignedToId a = Some u \<or> farmOwnedBy d (alert_farmId a) u)
      else True)"

definition alertWhere :: "db \<Rightarrow> request \<Rightarrow> alert \<Rightarrow> bool" where
  "alertWhere d req a =
     (matches (given req ''status'') (case alert_status a of
          NEW \<Rightarrow> ''NEW'' | ACKNOWLEDGED \<Rightarrow> ''ACKNOWLEDGED''
        | IN_PROGRESS \<Rightarrow> ''IN_PROGRESS'' | RESOLVED \<Rightarrow> ''RESOLVED'')
      \<and> matches (given req ''type'') (alert_type a)
      \<and> matches (given req ''severity'') (alert_severity a)
      \<and> matches (given req ''module'') (alert_module a)
      \<and> alertVisible d req a)"

definition orderBySeverityCreated :: "(string \<Rightarrow> 'k::linorder) \<Rightarrow> alert list \<Rightarrow> alert list" where
  "orderBySeverityCreated rank as =
     rev (sort_key (\<lambda>a. (rank (alert_severity a), alert_createdAt a)) (rev as))"

definition filtersKnown :: "(string \<Rightarrow> string \<Rightarrow> bool) \<Rightarrow> request \<Rightarrow> bool" where
  "filtersKnown known req =
     ((case given req ''status'' of None \<Rightarrow> True | Some s \<Rightarrow> parseAlertStatus s \<noteq> None)
      \<and> (case given req ''type'' of None \<Rightarrow> True | Some s \<Rightarrow> known ''type'' s)
      \<and> (case given req ''severity'' of None \<Rightarrow> True | Some s \<Rightarrow> known ''severity'' s))"

definition getAlerts ::
  "(string \<Rightarrow> 'k::linorder) \<Rightarrow> (string \<Rightarrow> string \<Rightarrow> bool) \<Rightarrow> db \<Rightarrow> request \<Rightarrow> alert list response" where
  "getAlerts rank known d req =
     (if filtersKnown known req
      then ok (take 100 (orderBySeverityCreated rank (filter (alertWhere d req) (alerts d))))
      else failure 500 ''Failed to get alerts'')"

text \<open>The order of two rows in an answer sorted by severity, then creation time, descending.\<close>

definition newerFirst :: "(string \<Rightarrow> 'k::linorder) \<Rightarrow> alert \<Rightarrow> alert \<Rightarrow> bool" where
  "newerFirst rank a b =
     (rank (alert_severity a) > rank (alert_severity b)
      \<or> (rank (alert_severity a) = rank (alert_severity b)
          \<and> alert_createdAt a \<ge> alert_createdAt b))"

section \<open>Farms and herds\<close>

text \<open>
  \<^verbatim>\<open>getFarms\<close>: \<^verbatim>\<open>where: { ...(req.user?.role !== 'ADMIN' && { ownerId: userId }) }\<close>,
  newest first. A key whose value is \<^verbatim>\<open>undefined\<close> is no condition for Prisma, which is
  what a request without a user would produce. (The \<^verbatim>\<open>include\<close> of the owner, the herds
  and the counts decorates each returned farm and selects no further farm.)
\<close>

definition farmWhere :: "request \<Rightarrow> farm \<Rightarrow> bool" where
  "farmWhere req f =
     (if notAdmin req
      then (case userId req of None \<Rightarrow> True | Some u \<Rightarrow> farm_ownerId f = u)
      else True)"

definition getFarms :: "db \<Rightarrow> request \<Rightarrow> farm list response" where
  "getFarms d req = ok (rev (sort_key farm_createdAt (rev (filter (farmWhere req) (farms d)))))"

text \<open>
  \<^verbatim>\<open>getFarmById\<close>: \<^verbatim>\<open>prisma.farm.findUnique({ where: { id } })\<close>, 404 when there is no
  such farm. The requester is not consulted.
\<close>

definition getFarmById :: "db \<Rightarrow> request \<Rightarrow> farm response" where
  "getFarmById d req =
     (case find (\<lambda>f. farm_id f = params req ''id'') (farms d) of
        None \<Rightarrow> failure 404 ''Farm not found''
      | Some farm \<Rightarrow> ok farm)"

text \<open>
  \<^verbatim>\<open>createFarm\<close>. The required-field test is
  \<^verbatim>\<open>!name || !location || !latitude || !longitude\<close>. The insert is rejected (and answered
  500) when the data does not fit the column types of the schema, which the sources do not
  contain and \<open>accepts\<close> stands for, when the owner is missing or is not a user, or when
  the generated key \<open>newId\<close> is taken.
\<close>

definition createFarm ::
  "(farm \<Rightarrow> bool) \<Rightarrow> db \<Rightarrow> request \<Rightarrow> string \<Rightarrow> int \<Rightarrow> farm response \<times> db" where
  "createFarm accepts d req newId now =
     (let name = body req ''name''; description = body req ''description'';
          location = body req ''location''; latitude = body req ''latitude'';
          longitude = body req ''longitude''; area = body req ''area'';
          ownerId = userId req in
      if \<not> truthy name \<or> \<not> truthy location \<or> \<not> truthy latitude \<or> \<not> truthy longitude
      then (failure 400 ''Please provide all required fields'', d)
      else
        (case ownerId of
           None \<Rightarrow> (failure 500 ''Failed to create farm'', d)
         | Some owner \<Rightarrow>
             (let row = \<lparr>farm_id = newId, farm_name = name, farm_description = orNull description,
                         farm_location = location, farm_latitude = latitude,
                         farm_longitude = longitude,
                         farm_area = (if truthy area then area else Num 0),
                         farm_ownerId = owner, farm_createdAt = now\<rparr> in
              if accepts row \<and> owner \<in> set (map u_id (users d))
                 \<and> newId \<notin> set (map farm_id (farms d))
              then (ok_msg 201 ''Farm created successfully'' row, d\<lparr>farms := farms d @ [row]\<rparr>)
              else (failure 500 ''Failed to create farm'', d))))"

text \<open>
  \<^verbatim>\<open>createHerd\<close>: the required-field test is \<^verbatim>\<open>!name || !animalType || !totalCount\<close>;
  the herd starts with \<open>healthyCount = totalCount\<close> and no sick or missing animal.
\<close>

definition createHerd ::
  "(herd \<Rightarrow> bool) \<Rightarrow> db \<Rightarrow> request \<Rightarrow> string \<Rightarrow> herd response \<times> db" where
  "createHerd accepts d req newId =
     (let farmId = params req ''farmId'';
          name = body req ''name''; description = body req ''description'';
          animalType = body req ''animalType''; totalCount = body req ''totalCount'' in
      if \<not> truthy name \<or> \<not> truthy animalType \<or> \<not> truthy totalCount
      then (failure 400 ''Please provide all required fields'', d)
      else
        (let row = \<lparr>herd_id = newId, herd_name = name, herd_description = orNull description,
                    herd_animalType = animalType, herd_totalCount = totalCount,
                    herd_healthyCount = totalCount, herd_sickCount = Num 0,
                    herd_missingCount = Num 0, herd_farmId = farmId\<rparr> in
         if accepts row \<and> farmId \<in> set (map farm_id (farms d))
            \<and> newId \<notin> set (map herd_id (herds d))
         then (ok_msg 201 ''Herd created successfully'' row, d\<lparr>herds := herds d @ [row]\<rparr>)
         else (failure 500 ''Failed to create herd'', d)))"

section \<open>Authentication\<close>

text \<open>
  \<^verbatim>\<open>login\<close>. The libraries are parameters: \<open>compare\<close> is \<^verbatim>\<open>bcrypt.compare\<close> (password,
  stored hash), \<open>sign\<close> is \<^verbatim>\<open>jwt.sign\<close> on the token payload, \<open>parse\<close> is
  \<^verbatim>\<open>JSON.parse\<close> (\<open>None\<close> when it throws). An email or password that is truthy but not a
  string makes the Prisma call, respectively \<^verbatim>\<open>bcrypt.compare\<close>, throw.
  The answer carries the user as read before \<open>lastLoginAt\<close> is written (the password is
  dropped from it by the handler), the parsed services and the token.
\<close>

record login_data =
  ld_user :: user_row
  ld_services :: jsval
  ld_token :: string

definition touchLogin :: "string \<Rightarrow> int \<Rightarrow> user_row \<Rightarrow> user_row" where
  "touchLogin i now u = (if u_id u = i then u\<lparr>u_lastLoginAt := Some now\<rparr> else u)"

definition login ::
  "(string \<Rightarrow> string \<Rightarrow> bool) \<Rightarrow> (requester \<Rightarrow> string) \<Rightarrow> (string \<Rightarrow> jsval option) \<Rightarrow>
   db \<Rightarrow> request \<Rightarrow> int \<Rightarrow> login_data response \<times> db" where
  "login compare sign parse d req now =
     (let email = body req ''email''; password = body req ''password'' in
      if \<not> truthy email \<or> \<not> truthy password
      then (failure 400 ''Please provide email and password'', d)
      else
        (case email of
           Str e \<Rightarrow>
             (case find (\<lambda>u. u_email u = e) (users d) of
                None \<Rightarrow> (failure 401 ''Invalid credentials'', d)
              | Some usr \<Rightarrow>
                  (case password of
                     Str p \<Rightarrow>
                       if \<not> compare p (u_password usr)
                       then (failure 401 ''Invalid credentials'', d)
                       else if u_status usr \<noteq> ''ACTIVE''
                       then (failure 401 ''Account is not active'', d)
                       else
                         (let d' = d\<lparr>users := map (touchLogin (u_id usr) now) (users d)\<rparr>;
                              token = sign \<lparr>user_id = u_id usr, user_email = u_email usr,
                                            user_role = u_role usr\<rparr> in
                          case (case u_services usr of
                                  None \<Rightarrow> Some (Arr [])
                                | Some s \<Rightarrow> if s = [] then Some (Arr []) else parse s) of
                            None \<Rightarrow> (failure 500 ''Login failed'', d')
                          | Some services \<Rightarrow>
                              (ok_msg 200 ''Login successful''
                                 \<lparr>ld_user = usr, ld_services = services, ld_token = token\<rparr>, d'))
                   | _ \<Rightarrow> (failure 500 ''Login failed'', d)))
         | _ \<Rightarrow> (failure 500 ''Login failed'', d)))"

section \<open>Reports\<close>

text \<open>
  \<^verbatim>\<open>JSON.stringify\<close> on the values a parsed body can hold. A string is a sequence of
  bytes (UTF-8); the quotation mark, the backslash and the control characters are escaped.
  A property whose value is \<^verbatim>\<open>undefined\<close> is left out of an object and reads \<open>null\<close>
  in an array. The text of a number (\<^verbatim>\<open>Number::toString\<close>) is the parameter \<open>numText\<close>.
  The properties of \<open>Obj\<close> are listed in the enumeration order of the object.
\<close>

definition hexDigit :: "nat \<Rightarrow> char" where
  "hexDigit n = ''0123456789abcdef'' ! (n mod 16)"

definition escapeChar :: "char \<Rightarrow> string" where
  "escapeChar c =
     (if c = CHR 0x22 then [CHR 0x5C, CHR 0x22]
      else if c = CHR 0x5C then [CHR 0x5C, CHR 0x5C]
      else if c = CHR 0x08 then [CHR 0x5C, CHR ''b'']
      else if c = CHR 0x09 then [CHR 0x5C, CHR ''t'']
      else if c = CHR 0x0A then [CHR 0x5C, CHR ''n'']
      else if c = CHR 0x0C then [CHR 0x5C, CHR ''f'']
      else if c = CHR 0x0D then [CHR 0x5C, CHR ''r'']
      else if (of_char c :: nat) < 32
      then [CHR 0x5C, CHR ''u'', CHR ''0'', CHR ''0'',
            hexDigit ((of_char c :: nat) div 16), hexDigit (of_char c)]
      else [c])"

definition quoteJSON :: "string \<Rightarrow> string" where
  "quoteJSON s = [CHR 0x22] @ concat (map escapeChar s) @ [CHR 0x22]"

fun joinWith :: "string \<Rightarrow> string list \<Rightarrow> string" where
  "joinWith sep [] = []"
| "joinWith sep [x] = x"
| "joinWith sep (x # y # ys) = x @ sep @ joinWith sep (y # ys)"

fun JSON_stringify :: "(rat \<Rightarrow> string) \<Rightarrow> jsval \<Rightarrow> string" where
  "JSON_stringify numText Undefined = ''null''"
| "JSON_stringify numText Null = ''null''"
| "JSON_stringify numText (Bool b) = (if b then ''true'' else ''false'')"
| "JSON_stringify numText (Num n) = numText n"
| "JSON_stringify numText (Str s) = quoteJSON s"
| "JSON_stringify numText (Arr xs) =
     ''['' @ joinWith '','' (map (JSON_stringify numText) xs) @ '']''"
| "JSON_stringify numText (Obj kvs) =
     ''{'' @ joinWith '',''
              (map (\<lambda>kv. quoteJSON (fst kv) @ '':'' @ JSON_stringify numText (snd kv))
                   (filter (\<lambda>kv. snd kv \<noteq> Undefined) kvs)) @ ''}''"

text \<open>
  \<^verbatim>\<open>generateReport\<close>. Required: \<open>title\<close>, \<open>type\<close>, \<open>module\<close> and \<open>dataSnapshot\<close>, all
  truthy. The snapshot is stored as
  \<^verbatim>\<open>typeof dataSnapshot === 'string' ? dataSnapshot : JSON.stringify(dataSnapshot)\<close>, the
  charts likewise when given. The period bounds are kept as the values handed to
  \<^verbatim>\<open>new Date\<close>. As for a farm, \<open>accepts\<close> is the schema's verdict on the row, the
  generator must be a user and the key must be new.
\<close>

definition textOf :: "(rat \<Rightarrow> string) \<Rightarrow> jsval \<Rightarrow> string" where
  "textOf numText v = (case v of Str s \<Rightarrow> s | _ \<Rightarrow> JSON_stringify numText v)"

definition generateReport ::
  "(rat \<Rightarrow> string) \<Rightarrow> (report \<Rightarrow> bool) \<Rightarrow> db \<Rightarrow> request \<Rightarrow> string \<Rightarrow> int \<Rightarrow> report response \<times> db" where
  "generateReport numText accepts d req newId now =
     (let title = body req ''title''; type = body req ''type''; module = body req ''module'';
          description = body req ''description''; periodStart = body req ''periodStart'';
          periodEnd = body req ''periodEnd''; dataSnapshot = body req ''dataSnapshot'';
          charts = body req ''charts'' in
      if \<not> truthy title \<or> \<not> truthy type \<or> \<not> truthy module \<or> \<not> truthy dataSnapshot
      then (failure 400 ''Please provide all required fields'', d)
      else
        (case userId req of
           None \<Rightarrow> (failure 500 ''Failed to generate report'', d)
         | Some uid \<Rightarrow>
             (let row = \<lparr>report_id = newId, report_title = title, report_type = type,
                         report_module = module, report_description = orNull description,
                         report_periodStart = (if truthy periodStart then Some periodStart else None),
                         report_periodEnd = (if truthy periodEnd then Some periodEnd else None),
                         report_dataSnapshot = textOf numText dataSnapshot,
                         report_charts = (if truthy charts then Some (textOf numText charts) else None),
                         report_generatedById = uid, report_generatedAt = now\<rparr> in
              if accepts row \<and> uid \<in> set (map u_id (users d))
                 \<and> newId \<notin> set (map report_id (reports d))
              then (ok_msg 201 ''Report generated successfully'' row,
                    d\<lparr>reports := reports d @ [row]\<rparr>)
              else (failure 500 ''Failed to generate report'', d))))"

text \<open>\<^verbatim>\<open>getReportById\<close>: the stored row, or 404.\<close>

definition getReportById :: "db \<Rightarrow> request \<Rightarrow> report response" where
  "getReportById d req =
     (case find (\<lambda>r. report_id r = params req ''id'') (reports d) of
        None \<Rightarrow> failure 404 ''Report not found''
      | Some report \<Rightarrow> ok report)"

text \<open>
  The \<open>dataSnapshot\<close> property of an answer, as the client reads it from the JSON of the
  response: the stored text, a JSON string.
\<close>

definition snapshotOf :: "report response \<Rightarrow> jsval option" where
  "snapshotOf resp = map_option (\<lambda>r. Str (report_dataSnapshot r)) (data resp)"

section \<open>Dashboards\<close>

text \<open>
  \<^verbatim>\<open>Promise.all\<close> is fulfilled with all the values when every promise is fulfilled and
  rejected as soon as one is; \<open>both\<close> is the case of two promises, and an array of
  \<open>n\<close> promises is \<open>both\<close> nested to the right.
\<close>

definition both :: "'a promise \<Rightarrow> 'b promise \<Rightarrow> ('a \<times> 'b) promise" where
  "both p q =
     (case p of
        Inl e \<Rightarrow> Inl e
      | Inr a \<Rightarrow> (case q of Inl e \<Rightarrow> Inl e | Inr b \<Rightarrow> Inr (a, b)))"

subsection \<open>Numbers of the runtime\<close>

text \<open>
  The decimal digits of a natural number, without leading zeroes.
\<close>

fun decimal :: "nat \<Rightarrow> string" where
  "decimal n =
     (if n < 10 then [''0123456789'' ! n]
      else decimal (n div 10) @ [''0123456789'' ! (n mod 10)])"

declare decimal.simps [simp del]

text \<open>
  \<^verbatim>\<open>Number::toString\<close> on the integers of magnitude at most \<open>2\<^sup>5\<^sup>3\<close>, which print as
  their decimal digits (larger doubles print the shortest digits that read back as the
  same double, which this is not). It is the number text used in the examples, whose
  payloads hold no other number than 245.
\<close>

definition integerText :: "rat \<Rightarrow> string" where
  "integerText r = (if r < 0 then ''-'' else []) @ decimal (nat \<lfloor>\<bar>r\<bar>\<rfloor>)"

text \<open>
  IEEE 754 binary64 arithmetic, as JavaScript numbers have it. \<open>toDouble q\<close> is the
  double nearest to the rational \<open>q\<close>, ties to the even significand: with
  \<open>2\<^sup>k \<le> |q| < 2\<^sup>k\<^sup>+\<^sup>1\<close> (\<open>k = ilog2 |q|\<close>) the significand is \<open>|q| / 2\<^sup>k\<^sup>-\<^sup>5\<^sup>2\<close>
  rounded to an integer of 53 bits. Overflow and subnormal numbers are not modelled: the
  quotients of counts that the dashboards compute are far from both. \<open>fdiv\<close> and
  \<open>fmul\<close> are the operators \<^verbatim>\<open>/\<close> and \<^verbatim>\<open>*\<close> on doubles.
\<close>

definition ilog2 :: "rat \<Rightarrow> int" where
  "ilog2 q = (let (a, b) = quotient_of q; k = bitlen a - bitlen b
              in if 2 powi k \<le> q then k else k - 1)"

definition roundEven :: "rat \<Rightarrow> int" where
  "roundEven m = (let f = \<lfloor>m\<rfloor>; r = m - of_int f
                  in if r < 1 / 2 then f
                     else if 1 / 2 < r then f + 1
                     else if even f then f else f + 1)"

definition toDouble :: "rat \<Rightarrow> rat" where
  "toDouble q = (if q = 0 then 0
                 else (let e = ilog2 \<bar>q\<bar> - 52
                       in sgn q * of_int (roundEven (\<bar>q\<bar> / 2 powi e)) * 2 powi e))"

definition fdiv :: "rat \<Rightarrow> rat \<Rightarrow> rat" where
  "fdiv x y = toDouble (x / y)"

definition fmul :: "rat \<Rightarrow> rat \<Rightarrow> rat" where
  "fmul x y = toDouble (x * y)"

text \<open>
  \<^verbatim>\<open>x.toFixed(1)\<close> for \<open>|x| < 10\<^sup>2\<^sup>1\<close>: with \<open>n\<close> the integer for which \<open>n / 10 - |x|\<close>
  is closest to zero (the larger one if there are two), the digits of \<open>n\<close> with a point
  before the last one, after a minus sign when \<open>x < 0\<close>. \<open>tenths\<close> is that \<open>n\<close>.
\<close>

definition tenths :: "rat \<Rightarrow> nat" where
  "tenths x = nat \<lfloor>\<bar>x\<bar> * 10 + 1 / 2\<rfloor>"

definition toFixed1 :: "rat \<Rightarrow> string" where
  "toFixed1 x =
     (if x < 0 then ''-'' else []) @ decimal (tenths x div 10) @ ''.'' @ decimal (tenths x mod 10)"

text \<open>
  The expression of both the farm and the land dashboard,
  \<^verbatim>\<open>total > 0 ? ((healthy / total) * 100).toFixed(1) : '0'\<close>, on two counts.
\<close>

definition healthRate :: "nat \<Rightarrow> nat \<Rightarrow> string" where
  "healthRate healthyCount totalCount =
     (if totalCount > 0
      then toFixed1 (fmul (fdiv (of_nat healthyCount) (of_nat totalCount)) 100)
      else ''0'')"

subsection \<open>The four aggregations\<close>

text \<open>
  Each handler awaits \<^verbatim>\<open>Promise.all\<close> of its queries inside \<^verbatim>\<open>try\<close>, builds the answer
  from all the results, and answers 500 from \<^verbatim>\<open>catch\<close>. The handler is a function of the
  outcomes of its queries, in the order of the array; the results that it passes on
  untouched (lists of rows, grouped aggregates) have the type the persistence layer gives
  them.
\<close>

record overview_stats =
  ov_farms :: nat
  ov_herds :: nat
  ov_animals :: nat
  ov_parks :: nat
  ov_wildlife :: nat
  ov_landZones :: nat
  ov_activeAlerts :: nat

record 'a overview =
  ov_stats :: overview_stats
  ov_recentActivities :: 'a

definition getOverviewStats ::
  "nat promise \<Rightarrow> nat promise \<Rightarrow> nat promise \<Rightarrow> nat promise \<Rightarrow> nat promise \<Rightarrow> nat promise \<Rightarrow>
   nat promise \<Rightarrow> 'a promise \<Rightarrow> 'a overview response" where
  "getOverviewStats farmsQ herdsQ animalsQ parksQ wildlifeQ landZonesQ alertsQ activitiesQ =
     (case both farmsQ (both herdsQ (both animalsQ (both parksQ (both wildlifeQ
             (both landZonesQ (both alertsQ activitiesQ)))))) of
        Inl error \<Rightarrow> failure 500 ''Failed to get overview statistics''
      | Inr (farmsCount, herdsCount, animalsCount, parksCount, wildlifeCount, landZonesCount,
             activeAlerts, recentActivities) \<Rightarrow>
          ok \<lparr>ov_stats = \<lparr>ov_farms = farmsCount, ov_herds = herdsCount,
                           ov_animals = animalsCount, ov_parks = parksCount,
                           ov_wildlife = wildlifeCount, ov_landZones = landZonesCount,
                           ov_activeAlerts = activeAlerts\<rparr>,
              ov_recentActivities = recentActivities\<rparr>)"

record farm_stats =
  fs_totalAnimals :: nat
  fs_healthyAnimals :: nat
  fs_sickAnimals :: nat
  fs_missingAnimals :: nat
  fs_healthRate :: string

record ('h, 'a, 't) farm_dashboard =
  fd_stats :: farm_stats
  fd_herds :: 'h
  fd_recentAlerts :: 'a
  fd_healthTrend :: 't

definition getFarmDashboard ::
  "nat promise \<Rightarrow> nat promise \<Rightarrow> nat promise \<Rightarrow> nat promise \<Rightarrow> 'h promise \<Rightarrow> 'a promise \<Rightarrow>
   't promise \<Rightarrow> ('h, 'a, 't) farm_dashboard response" where
  "getFarmDashboard totalQ healthyQ sickQ missingQ herdsQ alertsQ trendQ =
     (case both totalQ (both healthyQ (both sickQ (both missingQ (both herdsQ
             (both alertsQ trendQ))))) of
        Inl error \<Rightarrow> failure 500 ''Failed to get farm dashboard data''
      | Inr (totalAnimals, healthyAnimals, sickAnimals, missingAnimals, herdRows, recentAlerts,
             healthTrend) \<Rightarrow>
          ok \<lparr>fd_stats = \<lparr>fs_totalAnimals = totalAnimals, fs_healthyAnimals = healthyAnimals,
                           fs_sickAnimals = sickAnimals, fs_missingAnimals = missingAnimals,
                           fs_healthRate = healthRate healthyAnimals totalAnimals\<rparr>,
              fd_herds = herdRows, fd_recentAlerts = recentAlerts, fd_healthTrend = healthTrend\<rparr>)"

record park_stats =
  ps_parks :: nat
  ps_wildlifeSpecies :: nat
  ps_activePatrols :: nat
  ps_incidentsCount :: nat

record ('i, 'w, 'c) park_dashboard =
  pd_stats :: park_stats
  pd_recentIncidents :: "'i list"
  pd_wildlifePopulations :: 'w
  pd_censusData :: 'c

definition getParkDashboard ::
  "nat promise \<Rightarrow> nat promise \<Rightarrow> nat promise \<Rightarrow> 'i list promise \<Rightarrow> 'w promise \<Rightarrow> 'c promise \<Rightarrow>
   ('i, 'w, 'c) park_dashboard response" where
  "getParkDashboard parksQ speciesQ patrolsQ incidentsQ populationsQ censusQ =
     (case both parksQ (both speciesQ (both patrolsQ (both incidentsQ
             (both populationsQ censusQ)))) of
        Inl error \<Rightarrow> failure 500 ''Failed to get park dashboard data''
      | Inr (parksCount, wildlifeSpecies, activePatrols, recentIncidents, wildlifePopulations,
             censusData) \<Rightarrow>
          ok \<lparr>pd_stats = \<lparr>ps_parks = parksCount, ps_wildlifeSpecies = wildlifeSpecies,
                           ps_activePatrols = activePatrols,
                           ps_incidentsCount = length recentIncidents\<rparr>,
              pd_recentIncidents = recentIncidents,
              pd_wildlifePopulations = wildlifePopulations, pd_censusData = censusData\<rparr>)"

record land_stats =
  ls_totalZones :: nat
  ls_healthyZones :: nat
  ls_degradedZones :: nat
  ls_healthRate :: string

record ('c, 'v, 'z) land_dashboard =
  ld_stats :: land_stats
  ld_recentChanges :: 'c
  ld_vegetationTrend :: 'v
  ld_zones :: 'z

definition getLandDashboard ::
  "nat promise \<Rightarrow> nat promise \<Rightarrow> nat promise \<Rightarrow> 'c promise \<Rightarrow> 'v promise \<Rightarrow> 'z promise \<Rightarrow>
   ('c, 'v, 'z) land_dashboard response" where
  "getLandDashboard totalQ healthyQ degradedQ changesQ trendQ zonesQ =
     (case both totalQ (both healthyQ (both degradedQ (both changesQ (both trendQ zonesQ)))) of
        Inl error \<Rightarrow> failure 500 ''Failed to get land dashboard data''
      | Inr (totalZones, healthyZones, degradedZones, recentChanges, vegetationTrend, zones) \<Rightarrow>
          ok \<lparr>ld_stats = \<lparr>ls_totalZones = totalZones, ls_healthyZones = healthyZones,
                           ls_degradedZones = degradedZones,
                           ls_healthRate = healthRate healthyZones totalZones\<rparr>,
              ld_recentChanges = recentChanges, ld_vegetationTrend = vegetationTrend,
              ld_zones = zones\<rparr>)"

subsection \<open>The count queries\<close>

text \<open>
  \<^verbatim>\<open>prisma.landZone.count({ where: { degradationLevel: { lt: c } } })\<close> and its \<^verbatim>\<open>gte\<close>
  twin: a comparison selects no row whose level is NULL. Without \<^verbatim>\<open>where\<close> every row
  counts.
\<close>

datatype floatFilter = Lt rat | Gte rat

definition degradationWhere :: "floatFilter option \<Rightarrow> landZone \<Rightarrow> bool" where
  "degradationWhere w z =
     (case w of
        None \<Rightarrow> True
      | Some (Lt c) \<Rightarrow> (case zone_degradationLevel z of None \<Rightarrow> False | Some v \<Rightarrow> v < c)
      | Some (Gte c) \<Rightarrow> (case zone_degradationLevel z of None \<Rightarrow> False | Some v \<Rightarrow> c \<le> v))"

definition landZone_count :: "db \<Rightarrow> floatFilter option \<Rightarrow> nat" where
  "landZone_count d w = length (filter (degradationWhere w) (landZones d))"

text \<open>
  \<^verbatim>\<open>prisma.animal.count\<close> of the farm dashboard: an optional status, and for a requester
  who is not an administrator the scope \<^verbatim>\<open>{ herd: { farm: { ownerId: userId } } }\<close>.
\<close>

definition animalOwnedBy :: "db \<Rightarrow> string \<Rightarrow> animal \<Rightarrow> bool" where
  "animalOwnedBy d u a =
     (case find (\<lambda>h. herd_id h = animal_herdId a) (herds d) of
        None \<Rightarrow> False
      | Some h \<Rightarrow> (case find (\<lambda>f. farm_id f = herd_farmId h) (farms d) of
                    None \<Rightarrow> False
                  | Some f \<Rightarrow> farm_ownerId f = u))"

definition animalScope :: "db \<Rightarrow> request \<Rightarrow> animal \<Rightarrow> bool" where
  "animalScope d req a =
     (if notAdmin req
      then (case userId req of None \<Rightarrow> True | Some u \<Rightarrow> animalOwnedBy d u a)
      else True)"

definition animal_count :: "db \<Rightarrow> request \<Rightarrow> string option \<Rightarrow> nat" where
  "animal_count d req status =
     length (filter (\<lambda>a. (case status of None \<Rightarrow> True | Some s \<Rightarrow> animal_status a = s)
                          \<and> animalScope d req a) (animals d))"

section \<open>Example data\<close>

text \<open>
  A small database in the shape of the seed script: two farmers, one of them suspended,
  a farm for each, and three alerts. The stored password of a user is written as the text
  \<open>hash:\<close> followed by the password, and \<open>demo_compare\<close> checks exactly that.
\<close>

definition alice :: user_row where
  "alice = \<lparr>u_id = ''u1'', u_email = ''alice@kube.africa'', u_password = ''hash:alice-pw'',
            u_role = ''FARMER'', u_status = ''ACTIVE'', u_services = None,
            u_lastLoginAt = None\<rparr>"

definition bob :: user_row where
  "bob = \<lparr>u_id = ''u2'', u_email = ''bob@kube.africa'', u_password = ''hash:bob-pw'',
          u_role = ''FARMER'', u_status = ''SUSPENDED'', u_services = None,
          u_lastLoginAt = None\<rparr>"

definition farmA :: farm where
  "farmA = \<lparr>farm_id = ''f1'', farm_name = Str ''Bugesera Valley Farm'', farm_description = Null,
            farm_location = Str ''Bugesera'', farm_latitude = Num (-2), farm_longitude = Num 30,
            farm_area = Num 450, farm_ownerId = ''u1'', farm_createdAt = 10\<rparr>"

definition farmB :: farm where
  "farmB = \<lparr>farm_id = ''f2'', farm_name = Str ''Kayonza Livestock Center'', farm_description = Null,
            farm_location = Str ''Kayonza'', farm_latitude = Num (-1), farm_longitude = Num 30,
            farm_area = Num 320, farm_ownerId = ''u2'', farm_createdAt = 20\<rparr>"

definition alert1 :: alert where
  "alert1 = \<lparr>alert_id = ''a1'', alert_type = ''HEALTH'', alert_severity = ''CRITICAL'',
             alert_status = RESOLVED, alert_title = ''Fever'', alert_message = ''Fever detected'',
             alert_module = ''farm'', alert_farmId = Some ''f1'', alert_assignedToId = Some ''u1'',
             alert_actionTaken = Some ''vet called'', alert_resolvedBy = Some ''u1'',
             alert_resolvedAt = Some 50, alert_createdAt = 30\<rparr>"

definition alert2 :: alert where
  "alert2 = \<lparr>alert_id = ''a2'', alert_type = ''SECURITY'', alert_severity = ''WARNING'',
             alert_status = NEW, alert_title = ''Missing'', alert_message = ''Missing animals'',
             alert_module = ''farm'', alert_farmId = Some ''f1'', alert_assignedToId = None,
             alert_actionTaken = None, alert_resolvedBy = None,
             alert_resolvedAt = None, alert_createdAt = 40\<rparr>"

definition alert3 :: alert where
  "alert3 = \<lparr>alert_id = ''a3'', alert_type = ''SECURITY'', alert_severity = ''CRITICAL'',
             alert_status = IN_PROGRESS, alert_title = ''Poaching'', alert_message = ''Movement'',
             alert_module = ''park'', alert_farmId = None, alert_assignedToId = Some ''u2'',
             alert_actionTaken = None, alert_resolvedBy = None,
             alert_resolvedAt = None, alert_createdAt = 45\<rparr>"

definition demo_db :: db where
  "demo_db = \<lparr>users = [alice, bob], farms = [farmA, farmB], herds = [], animals = [],
              alerts = [alert1, alert2, alert3], reports = [], landZones = []\<rparr>"

definition demo_compare :: "string \<Rightarrow> string \<Rightarrow> bool" where
  "demo_compare password hash = (hash = ''hash:'' @ password)"

definition as_alice :: "requester option" where
  "as_alice = Some \<lparr>user_id = ''u1'', user_email = ''alice@kube.africa'', user_role = ''FARMER''\<rparr>"

definition as_bob :: "requester option" where
  "as_bob = Some \<lparr>user_id = ''u2'', user_email = ''bob@kube.africa'', user_role = ''FARMER''\<rparr>"


text \<open>\<^verbatim>\<open>PUT /api/alerts/a2/status {"status": "RESOLVED", "actionTaken": "found"}\<close>.\<close>

definition resolve_req :: request where
  "resolve_req = \<lparr>user = as_alice, params = (\<lambda>k. if k = ''id'' then ''a2'' else []),
                  query = (\<lambda>k. None),
                  body = (\<lambda>k. if k = ''status'' then Str ''RESOLVED''
                                else if k = ''actionTaken'' then Str ''found'' else Undefined)\<rparr>"


definition resolve_set_req :: request where
  "resolve_set_req = resolve_req\<lparr>body := (\<lambda>k. if k = ''status''
                                               then Obj [(''set'', Str ''RESOLVED'')]
                                               else Undefined)\<rparr>"

text \<open>\<^verbatim>\<open>GET /api/farms/f1\<close>, sent by bob, who does not own farm \<open>f1\<close>.\<close>

definition bob_reads_f1 :: request where
  "bob_reads_f1 = \<lparr>user = as_bob, params = (\<lambda>k. if k = ''id'' then ''f1'' else []),
                   query = (\<lambda>k. None), body = (\<lambda>k. Undefined)\<rparr>"

text \<open>\<^verbatim>\<open>GET /api/alerts\<close>, sent by alice.\<close>

definition list_req :: request where
  "list_req = \<lparr>user = as_alice, params = (\<lambda>k. []), query = (\<lambda>k. None),
               body = (\<lambda>k. Undefined)\<rparr>"

text \<open>
  \<^verbatim>\<open>POST /api/farms\<close> for a farm on the equator, and
  \<^verbatim>\<open>POST /api/farms/f1/herds\<close> for a herd that has no animal yet.
\<close>

definition equator_req :: request where
  "equator_req = \<lparr>user = as_alice, params = (\<lambda>k. []), query = (\<lambda>k. None),
                  body = (\<lambda>k. if k = ''name'' then Str ''Equator Farm''
                                else if k = ''location'' then Str ''Nanyuki''
                                else if k = ''latitude'' then Num 0
                                else if k = ''longitude'' then Num 37
                                else Undefined)\<rparr>"

definition empty_herd_req :: request where
  "empty_herd_req = \<lparr>user = as_alice, params = (\<lambda>k. if k = ''farmId'' then ''f1'' else []),
                     query = (\<lambda>k. None),
                     body = (\<lambda>k. if k = ''name'' then Str ''New herd''
                                   else if k = ''animalType'' then Str ''cattle''
                                   else if k = ''totalCount'' then Num 0
                                   else Undefined)\<rparr>"

text \<open>
  Two \<^verbatim>\<open>POST /api/auth/login\<close> requests for the suspended account of bob: one with a
  wrong password, one with the right password.
\<close>

definition login_req :: "string \<Rightarrow> string \<Rightarrow> request" where
  "login_req e p = \<lparr>user = None, params = (\<lambda>k. []), query = (\<lambda>k. None),
                    body = (\<lambda>k. if k = ''email'' then Str e
                                  else if k = ''password'' then Str p else Undefined)\<rparr>"

definition demo_sign :: "requester \<Rightarrow> string" where
  "demo_sign payload = ''token-for-'' @ user_id payload"

definition demo_parse :: "string \<Rightarrow> jsval option" where
  "demo_parse text = (if text = ''[]'' then Some (Arr []) else None)"

text \<open>The severities of the seed script, CRITICAL above WARNING above the rest.\<close>

definition demo_rank :: "string \<Rightarrow> nat" where
  "demo_rank severity =
     (if severity = ''CRITICAL'' then 2 else if severity = ''WARNING'' then 1 else 0)"

text \<open>
  \<^verbatim>\<open>POST /api/reports\<close> with a structured snapshot, sent by alice, and
  \<^verbatim>\<open>GET /api/reports/:id\<close>.
\<close>

definition snapshot_req :: request where
  "snapshot_req = \<lparr>user = as_alice, params = (\<lambda>k. []), query = (\<lambda>k. None),
                   body = (\<lambda>k. if k = ''title'' then Str ''Herd health''
                                 else if k = ''type'' then Str ''SUMMARY''
                                 else if k = ''module'' then Str ''farm''
                                 else if k = ''dataSnapshot''
                                 then Obj [(''totalAnimals'', Num 245), (''note'', Str ''ok'')]
                                 else Undefined)\<rparr>"

definition read_req :: "string \<Rightarrow> request" where
  "read_req i = \<lparr>user = as_alice, params = (\<lambda>k. if k = ''id'' then i else []),
                 query = (\<lambda>k. None), body = (\<lambda>k. Undefined)\<rparr>"

text \<open>Three land zones with degradation levels 12, 38 and 60.\<close>

definition land_db :: db where
  "land_db = demo_db\<lparr>landZones :=
     [\<lparr>zone_id = ''z1'', zone_name = ''Nyungwe Buffer'', zone_region = ''Western'',
       zone_degradationLevel = Some 12\<rparr>,
      \<lparr>zone_id = ''z2'', zone_name = ''Bugesera Grasslands'', zone_region = ''Eastern'',
       zone_degradationLevel = Some 38\<rparr>,
      \<lparr>zone_id = ''z3'', zone_name = ''Kayonza Slopes'', zone_region = ''Eastern'',
       zone_degradationLevel = Some 60\<rparr>]\<rparr>"

section \<open>Theorems\<close>

subsection \<open>Alert lifecycle\<close>

lemma find_update_row:
  "find (\<lambda>x. alert_id x = i) as = Some a \<Longrightarrow>
   find (\<lambda>x. alert_id x = i) (update_row i p as) = Some (apply_patch p a)"
  by (induction as) (auto simp: apply_patch_def)

lemma others_update_row:
  "filter (\<lambda>x. alert_id x \<noteq> i) (update_row i p as) = filter (\<lambda>x. alert_id x \<noteq> i) as"
  by (induction as) (auto simp: apply_patch_def)

lemma alert_update_Inr:
  assumes "alert_update d i p = Inr (a', d')"
  shows "\<exists>a. find (\<lambda>x. alert_id x = i) (alerts d) = Some a \<and> a' = apply_patch p a
             \<and> d' = d\<lparr>alerts := update_row i p (alerts d)\<rparr>"
  using assms
  by (auto simp: alert_update_def split: option.splits if_splits column_write.splits)







lemma statusPatch_Some:
  assumes "statusPatch req now = Some p"
  shows "\<exists>s st act. requiredText (body req ''status'') = Some s \<and> parseAlertStatus s = Some st
          \<and> nullableText (body req ''actionTaken'') = Some act
          \<and> set_status p = Put st \<and> set_assignedToId p = Keep \<and> set_actionTaken p = act
          \<and> set_resolvedBy p = (if body req ''status'' = Str ''RESOLVED''
                                then (case userId req of None \<Rightarrow> Keep | Some u \<Rightarrow> Put u)
                                else Keep)
          \<and> set_resolvedAt p = (if body req ''status'' = Str ''RESOLVED'' then Put now else Keep)"
  using assms
  by (auto simp: statusPatch_def Let_def simp del: parseAlertStatus.simps split: option.splits)

text \<open>
  What a status update answered 200 does, for an authenticated request: the status
  written is the one the client reads from the body, the stamps are in the update data
  exactly when the body's \<open>status\<close> is the string RESOLVED, and nothing else changes
  but \<open>actionTaken\<close>, when the body gives one.
\<close>

lemma updateAlertStatus_frame:
  assumes "updateAlertStatus d req now = (resp, d')"
    and "status_code resp = 200"
    and "user req = Some r"
  shows "\<exists>a a' s st act p.
           find (\<lambda>x. alert_id x = params req ''id'') (alerts d) = Some a
         \<and> requiredText (body req ''status'') = Some s \<and> parseAlertStatus s = Some st
         \<and> nullableText (body req ''actionTaken'') = Some act
         \<and> statusPatch req now = Some p
         \<and> (set_resolvedBy p \<noteq> Keep \<longleftrightarrow> body req ''status'' = Str ''RESOLVED'')
         \<and> (set_resolvedAt p \<noteq> Keep \<longleftrightarrow> body req ''status'' = Str ''RESOLVED'')
         \<and> data resp = Some a'
         \<and> find (\<lambda>x. alert_id x = params req ''id'') (alerts d') = Some a'
         \<and> filter (\<lambda>x. alert_id x \<noteq> params req ''id'') (alerts d')
             = filter (\<lambda>x. alert_id x \<noteq> params req ''id'') (alerts d)
         \<and> d'\<lparr>alerts := alerts d\<rparr> = d
         \<and> (let b = a\<lparr>alert_status := st,
                        alert_actionTaken := (case act of Keep \<Rightarrow> alert_actionTaken a
                                                        | Put v \<Rightarrow> v)\<rparr> in
             a' = (if body req ''status'' = Str ''RESOLVED''
                   then b\<lparr>alert_resolvedBy := Some (user_id r), alert_resolvedAt := Some now\<rparr>
                   else b))"
proof -
  let ?i = "params req ''id''"
  from assms(1,2) obtain p a0 where p: "statusPatch req now = Some p"
    and upd: "alert_update d ?i p = Inr (a0, d')"
    and resp: "resp = ok_msg 200 ''Alert updated successfully'' a0"
    by (auto simp: updateAlertStatus_def failure_def split: if_splits option.splits sum.splits)
  from alert_update_Inr[OF upd] obtain a where
    a: "find (\<lambda>x. alert_id x = ?i) (alerts d) = Some a"
    and a0: "a0 = apply_patch p a"
    and d': "d' = d\<lparr>alerts := update_row ?i p (alerts d)\<rparr>"
    by blast
  have uid: "userId req = Some (user_id r)"
    using assms(3) by (simp add: userId_def)
  from statusPatch_Some[OF p] uid obtain s st act where
    s: "requiredText (body req ''status'') = Some s" and st: "parseAlertStatus s = Some st"
    and act: "nullableText (body req ''actionTaken'') = Some act"
    and p1: "set_status p = Put st" and p2: "set_assignedToId p = Keep"
    and p3: "set_actionTaken p = act"
    and p4: "set_resolvedBy p = (if body req ''status'' = Str ''RESOLVED''
                                then Put (user_id r) else Keep)"
    and p5: "set_resolvedAt p = (if body req ''status'' = Str ''RESOLVED'' then Put now else Keep)"
    by auto
  have shape: "(let b = a\<lparr>alert_status := st,
                        alert_actionTaken := (case act of Keep \<Rightarrow> alert_actionTaken a
                                                        | Put v \<Rightarrow> v)\<rparr> in
             apply_patch p a = (if body req ''status'' = Str ''RESOLVED''
                   then b\<lparr>alert_resolvedBy := Some (user_id r), alert_resolvedAt := Some now\<rparr>
                   else b))"
    using p1 p2 p3 p4 p5 by (cases act) (auto simp: apply_patch_def Let_def)
  have f1: "find (\<lambda>x. alert_id x = ?i) (alerts d') = Some a0"
    using find_update_row[OF a, of p] a0 d' by simp
  have f2: "filter (\<lambda>x. alert_id x \<noteq> ?i) (alerts d') = filter (\<lambda>x. alert_id x \<noteq> ?i) (alerts d)"
    using others_update_row[of ?i p "alerts d"] d' by simp
  have f3: "d'\<lparr>alerts := alerts d\<rparr> = d"
    using d' by simp
  have w1: "set_resolvedBy p \<noteq> Keep \<longleftrightarrow> body req ''status'' = Str ''RESOLVED''"
    using p4 by simp
  have w2: "set_resolvedAt p \<noteq> Keep \<longleftrightarrow> body req ''status'' = Str ''RESOLVED''"
    using p5 by simp
  have dr: "data resp = Some a0"
    using resp by (simp add: ok_msg_def)
  show ?thesis
    using a s st act p w1 w2 dr f1 f2 f3 shape a0 by blast
qed

text \<open>
  With the status as a string, alice resolves the new alert \<open>a2\<close> at time 70 and the
  stored alert is stamped with her id and that time.
\<close>

lemma updateAlertStatus_text_resolved_stamped:
  "status_code (fst (updateAlertStatus demo_db resolve_req 70)) = 200
   \<and> find (\<lambda>x. alert_id x = ''a2'') (alerts (snd (updateAlertStatus demo_db resolve_req 70)))
       = Some (alert2\<lparr>alert_status := RESOLVED, alert_actionTaken := Some ''found'',
                      alert_resolvedBy := Some ''u1'', alert_resolvedAt := Some 70\<rparr>)"
  by (simp add: updateAlertStatus_def statusPatch_def requiredText_def nullableText_def
      operand_def resolve_req_def demo_db_def alert_update_def apply_patch_def alert1_def
      alert2_def ok_msg_def as_alice_def userId_def Let_def)

text \<open>
  Claim C7. The claim fails on the code: the handler compares the body's \<open>status\<close> with
  the string RESOLVED but writes whatever status the client reads from it. With the body
  \<^verbatim>\<open>{"status": {"set": "RESOLVED"}}\<close> alice's request is answered 200 and the stored
  alert \<open>a2\<close> is RESOLVED, yet \<open>resolvedBy\<close> and \<open>resolvedAt\<close> stay empty.
\<close>

theorem updateAlertStatus_set_resolved_unstamped:
  "body resolve_set_req ''status'' = Obj [(''set'', Str ''RESOLVED'')]
   \<and> user resolve_set_req = as_alice
   \<and> status_code (fst (updateAlertStatus demo_db resolve_set_req 70)) = 200
   \<and> alert_status alert2 = NEW
   \<and> find (\<lambda>x. alert_id x = ''a2'') (alerts (snd (updateAlertStatus demo_db resolve_set_req 70)))
       = Some (alert2\<lparr>alert_status := RESOLVED\<rparr>)
   \<and> alert_resolvedBy (alert2\<lparr>alert_status := RESOLVED\<rparr>) = None
   \<and> alert_resolvedAt (alert2\<lparr>alert_status := RESOLVED\<rparr>) = None"
  by (simp add: updateAlertStatus_def statusPatch_def requiredText_def nullableText_def
      operand_def resolve_set_req_def resolve_req_def demo_db_def alert_update_def
      apply_patch_def alert1_def alert2_def ok_msg_def as_alice_def userId_def Let_def)

subsection \<open>Visibility of farms\<close>

lemma getFarms_scoped:
  assumes "notAdmin req" and "userId req = Some u" and "data (getFarms d req) = Some fs"
  shows "\<forall>f \<in> set fs. farm_ownerId f = u \<and> f \<in> set (farms d)"
  using assms by (auto simp: getFarms_def ok_def farmWhere_def)

lemma getFarms_admin:
  assumes "\<not> notAdmin req" and "data (getFarms d req) = Some fs"
  shows "set fs = set (farms d)"
  using assms by (auto simp: getFarms_def ok_def farmWhere_def)

lemma getAlerts_scoped:
  assumes "notAdmin req" and "userId req = Some u"
    and "data (getAlerts rank known d req) = Some as"
  shows "\<forall>a \<in> set as. a \<in> set (alerts d)
           \<and> (alert_assignedToId a = Some u \<or> farmOwnedBy d (alert_farmId a) u)"
proof -
  from assms(3) have "set as \<subseteq> set (filter (alertWhere d req) (alerts d))"
    using set_take_subset[of 100 "orderBySeverityCreated rank (filter (alertWhere d req) (alerts d))"]
    by (auto simp: getAlerts_def ok_def failure_def orderBySeverityCreated_def split: if_splits)
  then show ?thesis
    using assms(1,2) by (auto simp: alertWhere_def alertVisible_def)
qed

lemma getFarmById_found:
  "find (\<lambda>f. farm_id f = params req ''id'') (farms d) = Some f \<Longrightarrow> getFarmById d req = ok f"
  by (simp add: getFarmById_def)

text \<open>
  Claim C1. The list handlers scope their query to the requester (\<open>getFarms_scoped\<close>,
  \<open>getFarms_admin\<close>, \<open>getAlerts_scoped\<close>), but \<open>getFarmById\<close> answers with whatever
  farm has the id (\<open>getFarmById_found\<close>): in the example database bob, a farmer, asks
  for farm \<open>f1\<close>, which alice owns, and receives it, although his own list of farms
  holds only \<open>f2\<close>.
\<close>

theorem getFarmById_returns_foreign_farm:
  "getFarmById demo_db bob_reads_f1 = ok farmA
   \<and> notAdmin bob_reads_f1
   \<and> userId bob_reads_f1 = Some ''u2''
   \<and> farm_ownerId farmA = ''u1''
   \<and> data (getFarms demo_db bob_reads_f1) = Some [farmB]"
  by (simp add: getFarmById_def getFarms_def farmWhere_def demo_db_def bob_reads_f1_def
      farmA_def farmB_def as_bob_def notAdmin_def userId_def ok_def)

subsection \<open>Required fields\<close>

text \<open>
  Claim C9. A \<open>createFarm\<close> request whose latitude or longitude is the number 0 is
  answered 400 with the message for missing fields and stores nothing, exactly as when
  the field is absent; \<open>createHerd\<close> does the same for a \<open>totalCount\<close> of 0.
\<close>

theorem zero_is_rejected_as_missing:
  "(body req ''latitude'' = Num 0 \<or> body req ''longitude'' = Num 0
      \<longrightarrow> createFarm accepts d req newId now
            = (failure 400 ''Please provide all required fields'', d))
   \<and> (body req ''latitude'' = Undefined \<or> body req ''longitude'' = Undefined
      \<longrightarrow> createFarm accepts d req newId now
            = (failure 400 ''Please provide all required fields'', d))
   \<and> (body req ''totalCount'' = Num 0
      \<longrightarrow> createHerd accepts' d req newId'
            = (failure 400 ''Please provide all required fields'', d))
   \<and> (body req ''totalCount'' = Undefined
      \<longrightarrow> createHerd accepts' d req newId'
            = (failure 400 ''Please provide all required fields'', d))"
  by (auto simp: createFarm_def createHerd_def Let_def)

text \<open>
  A farm on the equator and a herd without animals, every other field given, are both
  refused.
\<close>

theorem zero_is_rejected_as_missing_witness:
  "body equator_req ''latitude'' = Num 0
   \<and> createFarm (\<lambda>row. True) demo_db equator_req ''f3'' 60
       = (failure 400 ''Please provide all required fields'', demo_db)
   \<and> body empty_herd_req ''totalCount'' = Num 0
   \<and> createHerd (\<lambda>row. True) demo_db empty_herd_req ''h1''
       = (failure 400 ''Please provide all required fields'', demo_db)"
proof -
  have lat: "body equator_req ''latitude'' = Num 0"
    by (simp add: equator_req_def)
  have cnt: "body empty_herd_req ''totalCount'' = Num 0"
    by (simp add: empty_herd_req_def)
  from zero_is_rejected_as_missing[of equator_req "\<lambda>row. True" demo_db "''f3''" 60] lat
  have a: "createFarm (\<lambda>row. True) demo_db equator_req ''f3'' 60
       = (failure 400 ''Please provide all required fields'', demo_db)" by blast
  from zero_is_rejected_as_missing[of empty_herd_req _ demo_db _ _ "\<lambda>row. True" "''h1''"] cnt
  have b: "createHerd (\<lambda>row. True) demo_db empty_herd_req ''h1''
       = (failure 400 ''Please provide all required fields'', demo_db)" by blast
  show ?thesis using lat cnt a b by simp
qed

text \<open>The same two requests with 1 in place of 0 are stored and answered 201.\<close>

lemma createFarm_nonzero_accepted:
  "createFarm (\<lambda>row. True) demo_db
          (equator_req\<lparr>body := (body equator_req)(''latitude'' := Num 1)\<rparr>) ''f3'' 60
     = (let row = \<lparr>farm_id = ''f3'', farm_name = Str ''Equator Farm'', farm_description = Null,
                   farm_location = Str ''Nanyuki'', farm_latitude = Num 1, farm_longitude = Num 37,
                   farm_area = Num 0, farm_ownerId = ''u1'', farm_createdAt = 60\<rparr>
        in (ok_msg 201 ''Farm created successfully'' row, demo_db\<lparr>farms := [farmA, farmB, row]\<rparr>))"
  by (simp add: createFarm_def equator_req_def demo_db_def as_alice_def userId_def Let_def
      alice_def bob_def farmA_def farmB_def orNull_def)

lemma createHerd_nonzero_accepted:
  "createHerd (\<lambda>row. True) demo_db
          (empty_herd_req\<lparr>body := (body empty_herd_req)(''totalCount'' := Num 1)\<rparr>) ''h1''
     = (let row = \<lparr>herd_id = ''h1'', herd_name = Str ''New herd'', herd_description = Null,
                   herd_animalType = Str ''cattle'', herd_totalCount = Num 1,
                   herd_healthyCount = Num 1, herd_sickCount = Num 0, herd_missingCount = Num 0,
                   herd_farmId = ''f1''\<rparr>
        in (ok_msg 201 ''Herd created successfully'' row, demo_db\<lparr>herds := [row]\<rparr>))"
  by (simp add: createHerd_def empty_herd_req_def demo_db_def Let_def farmA_def farmB_def
      orNull_def)

subsection \<open>Login\<close>

text \<open>
  Claim C3, amended. For a login request whose email and password are non-empty strings:
  an unknown email and a wrong password are both answered 401 with the message
  \<open>Invalid credentials\<close>; a correct password on an account that is not ACTIVE is
  answered 401 with the different message \<open>Account is not active\<close>. The password is
  checked first, so a wrong password on such an account is answered
  \<open>Invalid credentials\<close>. None of these requests changes the database.
\<close>

theorem login_rejections:
  assumes "body req ''email'' = Str e" and "body req ''password'' = Str p"
    and "e \<noteq> []" and "p \<noteq> []"
  shows "(find (\<lambda>u. u_email u = e) (users d) = None \<longrightarrow>
            login compare sign parse d req now = (failure 401 ''Invalid credentials'', d))
       \<and> (\<forall>usr. find (\<lambda>u. u_email u = e) (users d) = Some usr \<longrightarrow>
            (\<not> compare p (u_password usr) \<longrightarrow>
               login compare sign parse d req now = (failure 401 ''Invalid credentials'', d))
          \<and> (compare p (u_password usr) \<and> u_status usr \<noteq> ''ACTIVE'' \<longrightarrow>
               login compare sign parse d req now = (failure 401 ''Account is not active'', d)))"
  using assms by (auto simp: login_def Let_def)

text \<open>
  The suspended account of bob, with the right password: the answer names the account's
  state.
\<close>

theorem login_rejections_witness:
  "body (login_req ''bob@kube.africa'' ''bob-pw'') ''email'' = Str ''bob@kube.africa''
   \<and> body (login_req ''bob@kube.africa'' ''bob-pw'') ''password'' = Str ''bob-pw''
   \<and> find (\<lambda>u. u_email u = ''bob@kube.africa'') (users demo_db) = Some bob
   \<and> demo_compare ''bob-pw'' (u_password bob) \<and> u_status bob \<noteq> ''ACTIVE''
   \<and> login demo_compare demo_sign demo_parse demo_db (login_req ''bob@kube.africa'' ''bob-pw'') 70
       = (failure 401 ''Account is not active'', demo_db)"
proof -
  let ?req = "login_req ''bob@kube.africa'' ''bob-pw''"
  have h1: "body ?req ''email'' = Str ''bob@kube.africa''"
    and h2: "body ?req ''password'' = Str ''bob-pw''"
    by (simp_all add: login_req_def)
  have h3: "''bob@kube.africa'' \<noteq> []" and h4: "''bob-pw'' \<noteq> []" by simp_all
  have f: "find (\<lambda>u. u_email u = ''bob@kube.africa'') (users demo_db) = Some bob"
    by (simp add: demo_db_def alice_def bob_def)
  have c: "demo_compare ''bob-pw'' (u_password bob)" and st: "u_status bob \<noteq> ''ACTIVE''"
    by (simp_all add: demo_compare_def bob_def)
  from login_rejections[OF h1 h2 h3 h4, of demo_db demo_compare demo_sign demo_parse 70] f c st
  have "login demo_compare demo_sign demo_parse demo_db ?req 70
          = (failure 401 ''Account is not active'', demo_db)"
    by blast
  then show ?thesis using h1 h2 f c st by simp
qed

text \<open>
  Claim C3 as stated fails: for the same suspended account a wrong password and the right
  password are both answered 401, but with different messages, so the caller can tell the
  two conditions apart.
\<close>

theorem login_rejections_distinguishable:
  "fst (login demo_compare demo_sign demo_parse demo_db (login_req ''bob@kube.africa'' ''guess'') 70)
     = failure 401 ''Invalid credentials''
   \<and> fst (login demo_compare demo_sign demo_parse demo_db (login_req ''bob@kube.africa'' ''bob-pw'') 70)
     = failure 401 ''Account is not active''
   \<and> fst (login demo_compare demo_sign demo_parse demo_db (login_req ''bob@kube.africa'' ''guess'') 70)
     \<noteq> fst (login demo_compare demo_sign demo_parse demo_db (login_req ''bob@kube.africa'' ''bob-pw'') 70)"
  by (simp add: login_def login_req_def Let_def demo_db_def alice_def bob_def demo_compare_def
      failure_def)

subsection \<open>Listing alerts\<close>

lemma orderBy_sorted:
  "sorted_wrt (newerFirst rank) (orderBySeverityCreated rank as)"
proof -
  let ?key = "\<lambda>a. (rank (alert_severity a), alert_createdAt a)"
  have "sorted (map ?key (sort_key ?key (rev as)))" by (rule sorted_sort_key)
  then have "sorted_wrt (\<lambda>a b. ?key a \<le> ?key b) (sort_key ?key (rev as))"
    by (simp add: sorted_map)
  then have "sorted_wrt (\<lambda>a b. ?key b \<le> ?key a) (rev (sort_key ?key (rev as)))"
    by (simp add: sorted_wrt_rev)
  moreover have "(\<lambda>a b. ?key b \<le> ?key a) = newerFirst rank"
    by (auto simp: newerFirst_def fun_eq_iff less_eq_prod_def)
  ultimately show ?thesis by (simp add: orderBySeverityCreated_def)
qed

lemma orderBy_set: "set (orderBySeverityCreated rank as) = set as"
  by (simp add: orderBySeverityCreated_def)

lemma orderBy_length: "length (orderBySeverityCreated rank as) = length as"
  by (simp add: orderBySeverityCreated_def)

text \<open>
  Claim C10. Whenever \<open>getAlerts\<close> answers with a list, the list has at most 100 alerts
  (exactly 100 as soon as 100 or more alerts match), it is ordered by severity descending
  and, among equal severities, by creation time descending, and it is the front of the
  matching alerts so ordered.
\<close>

theorem getAlerts_at_most_100_ordered:
  assumes "data (getAlerts rank known d req) = Some as"
  shows "length as \<le> 100
       \<and> length as = min 100 (length (filter (alertWhere d req) (alerts d)))
       \<and> sorted_wrt (newerFirst rank) as
       \<and> (\<exists>rest. sorted_wrt (newerFirst rank) (as @ rest)
                 \<and> set (as @ rest) = {a \<in> set (alerts d). alertWhere d req a}
                 \<and> length (as @ rest) = length (filter (alertWhere d req) (alerts d)))"
proof -
  let ?all = "orderBySeverityCreated rank (filter (alertWhere d req) (alerts d))"
  from assms have as: "as = take 100 ?all"
    by (auto simp: getAlerts_def ok_def failure_def split: if_splits)
  have 1: "length as = min 100 (length (filter (alertWhere d req) (alerts d)))"
    using as by (simp add: orderBy_length min.commute)
  have 2: "sorted_wrt (newerFirst rank) as"
    using as orderBy_sorted[of rank] by (simp add: sorted_wrt_take)
  have 3: "as @ drop 100 ?all = ?all"
    using as by simp
  have 4: "sorted_wrt (newerFirst rank) (as @ drop 100 ?all)
         \<and> set (as @ drop 100 ?all) = {a \<in> set (alerts d). alertWhere d req a}
         \<and> length (as @ drop 100 ?all) = length (filter (alertWhere d req) (alerts d))"
    unfolding 3 using orderBy_sorted[of rank] by (auto simp: orderBy_set orderBy_length)
  show ?thesis using 1 2 4 by (intro conjI exI[of _ "drop 100 ?all"]) auto
qed

text \<open>
  Alice lists her alerts: the critical \<open>a1\<close> comes before the warning \<open>a2\<close>, and \<open>a3\<close>,
  which is neither assigned to her nor on her farm, is absent.
\<close>

theorem getAlerts_at_most_100_ordered_witness:
  "data (getAlerts demo_rank (\<lambda>column text. True) demo_db list_req) = Some [alert1, alert2]
   \<and> length [alert1, alert2] \<le> 100
   \<and> sorted_wrt (newerFirst demo_rank) [alert1, alert2]"
proof -
  have d: "data (getAlerts demo_rank (\<lambda>column text. True) demo_db list_req) = Some [alert1, alert2]"
    by (simp add: getAlerts_def filtersKnown_def given_def list_req_def demo_db_def
        alertWhere_def alertVisible_def matches_def notAdmin_def userId_def as_alice_def
        farmOwnedBy_def farmA_def farmB_def alert1_def alert2_def alert3_def
        orderBySeverityCreated_def demo_rank_def ok_def)
  from getAlerts_at_most_100_ordered[OF d]
  have "length [alert1, alert2] \<le> 100 \<and> sorted_wrt (newerFirst demo_rank) [alert1, alert2]"
    by blast
  then show ?thesis using d by simp
qed

subsection \<open>Reports\<close>

lemma find_appended:
  "i \<notin> set (map report_id rs) \<Longrightarrow> report_id row = i \<Longrightarrow>
   find (\<lambda>r. report_id r = i) (rs @ [row]) = Some row"
  by (induction rs) auto

lemma generateReport_created:
  assumes "generateReport numText accepts d req newId now = (resp, d')"
    and "status_code resp = 201"
  shows "\<exists>row. resp = ok_msg 201 ''Report generated successfully'' row
           \<and> d' = d\<lparr>reports := reports d @ [row]\<rparr>
           \<and> report_id row = newId
           \<and> newId \<notin> set (map report_id (reports d))
           \<and> truthy (body req ''dataSnapshot'')
           \<and> report_dataSnapshot row = textOf numText (body req ''dataSnapshot'')"
  using assms
  by (auto simp: generateReport_def Let_def failure_def ok_msg_def split: if_splits option.splits)

text \<open>
  Claim C2, amended. After a report creation answered 201, reading the report by its id
  returns as \<open>dataSnapshot\<close> the text that was stored, which is also what the creation
  answered: the posted snapshot itself when that was a string, and otherwise the string
  \<^verbatim>\<open>JSON.stringify(dataSnapshot)\<close>, which is not the posted value.
\<close>

theorem report_snapshot_stored_as_text:
  assumes "generateReport numText accepts d req newId now = (resp, d')"
    and "status_code resp = 201"
    and "params get ''id'' = newId"
  shows "snapshotOf (getReportById d' get) = Some (Str (textOf numText (body req ''dataSnapshot'')))
       \<and> snapshotOf (getReportById d' get) = snapshotOf resp
       \<and> (\<forall>s. body req ''dataSnapshot'' = Str s \<longrightarrow>
              snapshotOf (getReportById d' get) = Some (body req ''dataSnapshot''))
       \<and> ((\<forall>s. body req ''dataSnapshot'' \<noteq> Str s) \<longrightarrow>
              snapshotOf (getReportById d' get)
                = Some (Str (JSON_stringify numText (body req ''dataSnapshot'')))
              \<and> snapshotOf (getReportById d' get) \<noteq> Some (body req ''dataSnapshot''))"
proof -
  from generateReport_created[OF assms(1,2)] obtain row where
    r: "resp = ok_msg 201 ''Report generated successfully'' row"
    and d': "d' = d\<lparr>reports := reports d @ [row]\<rparr>"
    and i: "report_id row = newId" and fresh: "newId \<notin> set (map report_id (reports d))"
    and t: "report_dataSnapshot row = textOf numText (body req ''dataSnapshot'')"
    by blast
  have g: "getReportById d' get = ok row"
    using find_appended[OF fresh i] d' assms(3) by (simp add: getReportById_def)
  have 1: "snapshotOf (getReportById d' get) = Some (Str (textOf numText (body req ''dataSnapshot'')))"
    using g t by (simp add: snapshotOf_def ok_def)
  have 2: "snapshotOf resp = Some (Str (textOf numText (body req ''dataSnapshot'')))"
    using r t by (simp add: snapshotOf_def ok_msg_def)
  show ?thesis
    unfolding 1 2 by (cases "body req ''dataSnapshot''") (auto simp: textOf_def)
qed

text \<open>
  A report whose snapshot is the string \<open>all healthy\<close> is read back with that string.
\<close>

theorem report_snapshot_stored_as_text_witness:
  "status_code (fst (generateReport integerText (\<lambda>row. True) demo_db
       (snapshot_req\<lparr>body := (body snapshot_req)(''dataSnapshot'' := Str ''all healthy'')\<rparr>)
       ''r1'' 80)) = 201
   \<and> snapshotOf (getReportById (snd (generateReport integerText (\<lambda>row. True) demo_db
       (snapshot_req\<lparr>body := (body snapshot_req)(''dataSnapshot'' := Str ''all healthy'')\<rparr>)
       ''r1'' 80)) (read_req ''r1'')) = Some (Str ''all healthy'')"
proof -
  let ?req = "snapshot_req\<lparr>body := (body snapshot_req)(''dataSnapshot'' := Str ''all healthy'')\<rparr>"
  let ?R = "generateReport integerText (\<lambda>row. True) demo_db ?req ''r1'' 80"
  have e: "?R = (fst ?R, snd ?R)" by simp
  have s: "status_code (fst ?R) = 201"
    by (simp add: generateReport_def snapshot_req_def demo_db_def as_alice_def userId_def
        Let_def alice_def bob_def ok_msg_def)
  have i: "params (read_req ''r1'') ''id'' = ''r1''"
    by (simp add: read_req_def)
  have b: "body ?req ''dataSnapshot'' = Str ''all healthy''"
    by simp
  from report_snapshot_stored_as_text[OF e s i] b
  have "snapshotOf (getReportById (snd ?R) (read_req ''r1'')) = Some (Str ''all healthy'')"
    by (simp add: textOf_def)
  then show ?thesis using s by simp
qed

text \<open>
  Claim C2 as stated fails for a structured snapshot: the object
  \<^verbatim>\<open>{"totalAnimals":245,"note":"ok"}\<close> is posted, the report is created, and reading it
  returns a string holding that JSON text instead of the object.
\<close>

theorem report_snapshot_not_roundtrip:
  "status_code (fst (generateReport integerText (\<lambda>row. True) demo_db snapshot_req ''r1'' 80)) = 201
   \<and> body snapshot_req ''dataSnapshot'' = Obj [(''totalAnimals'', Num 245), (''note'', Str ''ok'')]
   \<and> snapshotOf (getReportById (snd (generateReport integerText (\<lambda>row. True) demo_db snapshot_req ''r1'' 80))
                                 (read_req ''r1''))
       = Some (Str ([CHR 0x7B, CHR 0x22] @ ''totalAnimals'' @ [CHR 0x22] @ '':245,'' @ [CHR 0x22]
                    @ ''note'' @ [CHR 0x22, CHR 0x3A, CHR 0x22] @ ''ok'' @ [CHR 0x22, CHR 0x7D]))
   \<and> snapshotOf (getReportById (snd (generateReport integerText (\<lambda>row. True) demo_db snapshot_req ''r1'' 80))
                                 (read_req ''r1''))
       \<noteq> Some (body snapshot_req ''dataSnapshot'')"
  by (simp add: generateReport_def snapshot_req_def read_req_def demo_db_def as_alice_def
      userId_def Let_def alice_def bob_def getReportById_def snapshotOf_def ok_def ok_msg_def
      textOf_def quoteJSON_def escapeChar_def integerText_def decimal.simps)

subsection \<open>Dashboard aggregations\<close>

lemma rejection_is_Rejected: "(e :: rejection) = Rejected"
  by (cases e) simp

lemma isl_rejected: "isl p \<longleftrightarrow> p = Inl Rejected"
  by (cases p) (auto simp: rejection_is_Rejected)

lemma overview_fails:
  "isl q1 \<or> isl q2 \<or> isl q3 \<or> isl q4 \<or> isl q5 \<or> isl q6 \<or> isl q7 \<or> isl q8 \<Longrightarrow>
   getOverviewStats q1 q2 q3 q4 q5 q6 q7 q8
     = \<lparr>status_code = 500, success = False,
        message = Some ''Failed to get overview statistics'', data = None\<rparr>"
  by (auto simp: getOverviewStats_def isl_rejected failure_def both_def split: sum.splits)

lemma overview_combines:
  "getOverviewStats (Inr a1) (Inr a2) (Inr a3) (Inr a4) (Inr a5) (Inr a6) (Inr a7) (Inr a8)
     = \<lparr>status_code = 200, success = True, message = None,
        data = Some \<lparr>ov_stats = \<lparr>ov_farms = a1, ov_herds = a2, ov_animals = a3, ov_parks = a4,
                                  ov_wildlife = a5, ov_landZones = a6, ov_activeAlerts = a7\<rparr>,
                     ov_recentActivities = a8\<rparr>\<rparr>"
  by (simp add: getOverviewStats_def both_def ok_def)

lemma farm_fails:
  "isl q1 \<or> isl q2 \<or> isl q3 \<or> isl q4 \<or> isl q5 \<or> isl q6 \<or> isl q7 \<Longrightarrow>
   getFarmDashboard q1 q2 q3 q4 q5 q6 q7
     = \<lparr>status_code = 500, success = False,
        message = Some ''Failed to get farm dashboard data'', data = None\<rparr>"
  by (auto simp: getFarmDashboard_def isl_rejected failure_def both_def split: sum.splits)

lemma farm_combines:
  "getFarmDashboard (Inr a1) (Inr a2) (Inr a3) (Inr a4) (Inr a5) (Inr a6) (Inr a7)
     = \<lparr>status_code = 200, success = True, message = None,
        data = Some \<lparr>fd_stats = \<lparr>fs_totalAnimals = a1, fs_healthyAnimals = a2,
                                  fs_sickAnimals = a3, fs_missingAnimals = a4,
                                  fs_healthRate = healthRate a2 a1\<rparr>,
                     fd_herds = a5, fd_recentAlerts = a6, fd_healthTrend = a7\<rparr>\<rparr>"
  by (simp add: getFarmDashboard_def both_def ok_def)

lemma park_fails:
  "isl q1 \<or> isl q2 \<or> isl q3 \<or> isl q4 \<or> isl q5 \<or> isl q6 \<Longrightarrow>
   getParkDashboard q1 q2 q3 q4 q5 q6
     = \<lparr>status_code = 500, success = False,
        message = Some ''Failed to get park dashboard data'', data = None\<rparr>"
  by (auto simp: getParkDashboard_def isl_rejected failure_def both_def split: sum.splits)

lemma park_combines:
  "getParkDashboard (Inr a1) (Inr a2) (Inr a3) (Inr a4) (Inr a5) (Inr a6)
     = \<lparr>status_code = 200, success = True, message = None,
        data = Some \<lparr>pd_stats = \<lparr>ps_parks = a1, ps_wildlifeSpecies = a2, ps_activePatrols = a3,
                                  ps_incidentsCount = length a4\<rparr>,
                     pd_recentIncidents = a4, pd_wildlifePopulations = a5,
                     pd_censusData = a6\<rparr>\<rparr>"
  by (simp add: getParkDashboard_def both_def ok_def)

lemma land_fails:
  "isl q1 \<or> isl q2 \<or> isl q3 \<or> isl q4 \<or> isl q5 \<or> isl q6 \<Longrightarrow>
   getLandDashboard q1 q2 q3 q4 q5 q6
     = \<lparr>status_code = 500, success = False,
        message = Some ''Failed to get land dashboard data'', data = None\<rparr>"
  by (auto simp: getLandDashboard_def isl_rejected failure_def both_def split: sum.splits)

lemma land_combines:
  "getLandDashboard (Inr a1) (Inr a2) (Inr a3) (Inr a4) (Inr a5) (Inr a6)
     = \<lparr>status_code = 200, success = True, message = None,
        data = Some \<lparr>ld_stats = \<lparr>ls_totalZones = a1, ls_healthyZones = a2,
                                  ls_degradedZones = a3, ls_healthRate = healthRate a2 a1\<rparr>,
                     ld_recentChanges = a4, ld_vegetationTrend = a5, ld_zones = a6\<rparr>\<rparr>"
  by (simp add: getLandDashboard_def both_def ok_def)

text \<open>
  Claim C8. For each of the four aggregations: if any one of its queries is rejected, the
  answer is the 500 envelope with the handler's generic message and no data; when every
  query is fulfilled the answer is 200 with the data built from the results of all of
  them; and an answer with data is given in that case only.
\<close>

theorem aggregation_all_or_nothing:
  "(isl o1 \<or> isl o2 \<or> isl o3 \<or> isl o4 \<or> isl o5 \<or> isl o6 \<or> isl o7 \<or> isl o8 \<longrightarrow>
      getOverviewStats o1 o2 o3 o4 o5 o6 o7 o8
        = \<lparr>status_code = 500, success = False,
           message = Some ''Failed to get overview statistics'', data = None\<rparr>)
   \<and> getOverviewStats (Inr v1) (Inr v2) (Inr v3) (Inr v4) (Inr v5) (Inr v6) (Inr v7) (Inr v8)
      = ok \<lparr>ov_stats = \<lparr>ov_farms = v1, ov_herds = v2, ov_animals = v3, ov_parks = v4,
                                ov_wildlife = v5, ov_landZones = v6, ov_activeAlerts = v7\<rparr>,
                   ov_recentActivities = v8\<rparr>
   \<and> (data (getOverviewStats o1 o2 o3 o4 o5 o6 o7 o8) \<noteq> None \<longrightarrow>
        (\<exists>a1 a2 a3 a4 a5 a6 a7 a8.
           o1 = Inr a1 \<and> o2 = Inr a2 \<and> o3 = Inr a3 \<and> o4 = Inr a4 \<and> o5 = Inr a5 \<and> o6 = Inr a6 \<and> o7 = Inr a7 \<and> o8 = Inr a8
         \<and> getOverviewStats o1 o2 o3 o4 o5 o6 o7 o8
             = ok \<lparr>ov_stats = \<lparr>ov_farms = a1, ov_herds = a2, ov_animals = a3, ov_parks = a4,
                                ov_wildlife = a5, ov_landZones = a6, ov_activeAlerts = a7\<rparr>,
                   ov_recentActivities = a8\<rparr>))
   \<and> (isl f1 \<or> isl f2 \<or> isl f3 \<or> isl f4 \<or> isl f5 \<or> isl f6 \<or> isl f7 \<longrightarrow>
      getFarmDashboard f1 f2 f3 f4 f5 f6 f7
        = \<lparr>status_code = 500, success = False,
           message = Some ''Failed to get farm dashboard data'', data = None\<rparr>)
   \<and> getFarmDashboard (Inr g1) (Inr g2) (Inr g3) (Inr g4) (Inr g5) (Inr g6) (Inr g7)
      = ok \<lparr>fd_stats = \<lparr>fs_totalAnimals = g1, fs_healthyAnimals = g2,
                                fs_sickAnimals = g3, fs_missingAnimals = g4,
                                fs_healthRate = healthRate g2 g1\<rparr>,
                   fd_herds = g5, fd_recentAlerts = g6, fd_healthTrend = g7\<rparr>
   \<and> (data (getFarmDashboard f1 f2 f3 f4 f5 f6 f7) \<noteq> None \<longrightarrow>
        (\<exists>a1 a2 a3 a4 a5 a6 a7.
           f1 = Inr a1 \<and> f2 = Inr a2 \<and> f3 = Inr a3 \<and> f4 = Inr a4 \<and> f5 = Inr a5 \<and> f6 = Inr a6 \<and> f7 = Inr a7
         \<and> getFarmDashboard f1 f2 f3 f4 f5 f6 f7
             = ok \<lparr>fd_stats = \<lparr>fs_totalAnimals = a1, fs_healthyAnimals = a2,
                                fs_sickAnimals = a3, fs_missingAnimals = a4,
                                fs_healthRate = healthRate a2 a1\<rparr>,
                   fd_herds = a5, fd_recentAlerts = a6, fd_healthTrend = a7\<rparr>))
   \<and> (isl p1 \<or> isl p2 \<or> isl p3 \<or> isl p4 \<or> isl p5 \<or> isl p6 \<longrightarrow>
      getParkDashboard p1 p2 p3 p4 p5 p6
        = \<lparr>status_code = 500, success = False,
           message = Some ''Failed to get park dashboard data'', data = None\<rparr>)
   \<and> getParkDashboard (Inr r1) (Inr r2) (Inr r3) (Inr r4) (Inr r5) (Inr r6)
      = ok \<lparr>pd_stats = \<lparr>ps_parks = r1, ps_wildlifeSpecies = r2, ps_activePatrols = r3,
                                ps_incidentsCount = length r4\<rparr>,
                   pd_recentIncidents = r4, pd_wildlifePopulations = r5,
                   pd_censusData = r6\<rparr>
   \<and> (data (getParkDashboard p1 p2 p3 p4 p5 p6) \<noteq> None \<longrightarrow>
        (\<exists>a1 a2 a3 a4 a5 a6.
           p1 = Inr a1 \<and> p2 = Inr a2 \<and> p3 = Inr a3 \<and> p4 = Inr a4 \<and> p5 = Inr a5 \<and> p6 = Inr a6
         \<and> getParkDashboard p1 p2 p3 p4 p5 p6
             = ok \<lparr>pd_stats = \<lparr>ps_parks = a1, ps_wildlifeSpecies = a2, ps_activePatrols = a3,
                                ps_incidentsCount = length a4\<rparr>,
                   pd_recentIncidents = a4, pd_wildlifePopulations = a5,
                   pd_censusData = a6\<rparr>))
   \<and> (isl l1 \<or> isl l2 \<or> isl l3 \<or> isl l4 \<or> isl l5 \<or> isl l6 \<longrightarrow>
      getLandDashboard l1 l2 l3 l4 l5 l6
        = \<lparr>status_code = 500, success = False,
           message = Some ''Failed to get land dashboard data'', data = None\<rparr>)
   \<and> getLandDashboard (Inr z1) (Inr z2) (Inr z3) (Inr z4) (Inr z5) (Inr z6)
      = ok \<lparr>ld_stats = \<lparr>ls_totalZones = z1, ls_healthyZones = z2,
                                ls_degradedZones = z3, ls_healthRate = healthRate z2 z1\<rparr>,
                   ld_recentChanges = z4, ld_vegetationTrend = z5, ld_zones = z6\<rparr>
   \<and> (data (getLandDashboard l1 l2 l3 l4 l5 l6) \<noteq> None \<longrightarrow>
        (\<exists>a1 a2 a3 a4 a5 a6.
           l1 = Inr a1 \<and> l2 = Inr a2 \<and> l3 = Inr a3 \<and> l4 = Inr a4 \<and> l5 = Inr a5 \<and> l6 = Inr a6
         \<and> getLandDashboard l1 l2 l3 l4 l5 l6
             = ok \<lparr>ld_stats = \<lparr>ls_totalZones = a1, ls_healthyZones = a2,
                                ls_degradedZones = a3, ls_healthRate = healthRate a2 a1\<rparr>,
                   ld_recentChanges = a4, ld_vegetationTrend = a5, ld_zones = a6\<rparr>))"
proof -
  have ov_fail: "isl o1 \<or> isl o2 \<or> isl o3 \<or> isl o4 \<or> isl o5 \<or> isl o6 \<or> isl o7 \<or> isl o8 \<longrightarrow>
      getOverviewStats o1 o2 o3 o4 o5 o6 o7 o8
        = \<lparr>status_code = 500, success = False,
           message = Some ''Failed to get overview statistics'', data = None\<rparr>"
    using overview_fails[of o1 o2 o3 o4 o5 o6 o7 o8] by blast
  have ov_comb: "getOverviewStats (Inr v1) (Inr v2) (Inr v3) (Inr v4) (Inr v5) (Inr v6) (Inr v7) (Inr v8)
      = ok \<lparr>ov_stats = \<lparr>ov_farms = v1, ov_herds = v2, ov_animals = v3, ov_parks = v4,
                                ov_wildlife = v5, ov_landZones = v6, ov_activeAlerts = v7\<rparr>,
                   ov_recentActivities = v8\<rparr>"
    by (simp add: overview_combines ok_def)
  have ov_data: "data (getOverviewStats o1 o2 o3 o4 o5 o6 o7 o8) \<noteq> None \<longrightarrow>
        (\<exists>a1 a2 a3 a4 a5 a6 a7 a8.
           o1 = Inr a1 \<and> o2 = Inr a2 \<and> o3 = Inr a3 \<and> o4 = Inr a4 \<and> o5 = Inr a5 \<and> o6 = Inr a6 \<and> o7 = Inr a7 \<and> o8 = Inr a8
         \<and> getOverviewStats o1 o2 o3 o4 o5 o6 o7 o8
             = ok \<lparr>ov_stats = \<lparr>ov_farms = a1, ov_herds = a2, ov_animals = a3, ov_parks = a4,
                                ov_wildlife = a5, ov_landZones = a6, ov_activeAlerts = a7\<rparr>,
                   ov_recentActivities = a8\<rparr>)"
  proof
    assume "data (getOverviewStats o1 o2 o3 o4 o5 o6 o7 o8) \<noteq> None"
    then have "\<not> (isl o1 \<or> isl o2 \<or> isl o3 \<or> isl o4 \<or> isl o5 \<or> isl o6 \<or> isl o7 \<or> isl o8)"
      using overview_fails[of o1 o2 o3 o4 o5 o6 o7 o8] by auto
    then obtain a1 a2 a3 a4 a5 a6 a7 a8 where
      "o1 = Inr a1" "o2 = Inr a2" "o3 = Inr a3" "o4 = Inr a4" "o5 = Inr a5" "o6 = Inr a6" "o7 = Inr a7" "o8 = Inr a8"
      by (cases o1; cases o2; cases o3; cases o4; cases o5; cases o6; cases o7; cases o8) auto
    then show "\<exists>a1 a2 a3 a4 a5 a6 a7 a8.
           o1 = Inr a1 \<and> o2 = Inr a2 \<and> o3 = Inr a3 \<and> o4 = Inr a4 \<and> o5 = Inr a5 \<and> o6 = Inr a6 \<and> o7 = Inr a7 \<and> o8 = Inr a8
         \<and> getOverviewStats o1 o2 o3 o4 o5 o6 o7 o8
             = ok \<lparr>ov_stats = \<lparr>ov_farms = a1, ov_herds = a2, ov_animals = a3, ov_parks = a4,
                                ov_wildlife = a5, ov_landZones = a6, ov_activeAlerts = a7\<rparr>,
                   ov_recentActivities = a8\<rparr>"
      by (simp add: overview_combines ok_def)
  qed
  have fa_fail: "isl f1 \<or> isl f2 \<or> isl f3 \<or> isl f4 \<or> isl f5 \<or> isl f6 \<or> isl f7 \<longrightarrow>
      getFarmDashboard f1 f2 f3 f4 f5 f6 f7
        = \<lparr>status_code = 500, success = False,
           message = Some ''Failed to get farm dashboard data'', data = None\<rparr>"
    using farm_fails[of f1 f2 f3 f4 f5 f6 f7] by blast
  have fa_comb: "getFarmDashboard (Inr g1) (Inr g2) (Inr g3) (Inr g4) (Inr g5) (Inr g6) (Inr g7)
      = ok \<lparr>fd_stats = \<lparr>fs_totalAnimals = g1, fs_healthyAnimals = g2,
                                fs_sickAnimals = g3, fs_missingAnimals = g4,
                                fs_healthRate = healthRate g2 g1\<rparr>,
                   fd_herds = g5, fd_recentAlerts = g6, fd_healthTrend = g7\<rparr>"
    by (simp add: farm_combines ok_def)
  have fa_data: "data (getFarmDashboard f1 f2 f3 f4 f5 f6 f7) \<noteq> None \<longrightarrow>
        (\<exists>a1 a2 a3 a4 a5 a6 a7.
           f1 = Inr a1 \<and> f2 = Inr a2 \<and> f3 = Inr a3 \<and> f4 = Inr a4 \<and> f5 = Inr a5 \<and> f6 = Inr a6 \<and> f7 = Inr a7
         \<and> getFarmDashboard f1 f2 f3 f4 f5 f6 f7
             = ok \<lparr>fd_stats = \<lparr>fs_totalAnimals = a1, fs_healthyAnimals = a2,
                                fs_sickAnimals = a3, fs_missingAnimals = a4,
                                fs_healthRate = healthRate a2 a1\<rparr>,
                   fd_herds = a5, fd_recentAlerts = a6, fd_healthTrend = a7\<rparr>)"
  proof
    assume "data (getFarmDashboard f1 f2 f3 f4 f5 f6 f7) \<noteq> None"
    then have "\<not> (isl f1 \<or> isl f2 \<or> isl f3 \<or> isl f4 \<or> isl f5 \<or> isl f6 \<or> isl f7)"
      using farm_fails[of f1 f2 f3 f4 f5 f6 f7] by auto
    then obtain a1 a2 a3 a4 a5 a6 a7 where
      "f1 = Inr a1" "f2 = Inr a2" "f3 = Inr a3" "f4 = Inr a4" "f5 = Inr a5" "f6 = Inr a6" "f7 = Inr a7"
      by (cases f1; cases f2; cases f3; cases f4; cases f5; cases f6; cases f7) auto
    then show "\<exists>a1 a2 a3 a4 a5 a6 a7.
           f1 = Inr a1 \<and> f2 = Inr a2 \<and> f3 = Inr a3 \<and> f4 = Inr a4 \<and> f5 = Inr a5 \<and> f6 = Inr a6 \<and> f7 = Inr a7
         \<and> getFarmDashboard f1 f2 f3 f4 f5 f6 f7
             = ok \<lparr>fd_stats = \<lparr>fs_totalAnimals = a1, fs_healthyAnimals = a2,
                                fs_sickAnimals = a3, fs_missingAnimals = a4,
                                fs_healthRate = healthRate a2 a1\<rparr>,
                   fd_herds = a5, fd_recentAlerts = a6, fd_healthTrend = a7\<rparr>"
      by (simp add: farm_combines ok_def)
  qed
  have pa_fail: "isl p1 \<or> isl p2 \<or> isl p3 \<or> isl p4 \<or> isl p5 \<or> isl p6 \<longrightarrow>
      getParkDashboard p1 p2 p3 p4 p5 p6
        = \<lparr>status_code = 500, success = False,
           message = Some ''Failed to get park dashboard data'', data = None\<rparr>"
    using park_fails[of p1 p2 p3 p4 p5 p6] by blast
  have pa_comb: "getParkDashboard (Inr r1) (Inr r2) (Inr r3) (Inr r4) (Inr r5) (Inr r6)
      = ok \<lparr>pd_stats = \<lparr>ps_parks = r1, ps_wildlifeSpecies = r2, ps_activePatrols = r3,
                                ps_incidentsCount = length r4\<rparr>,
                   pd_recentIncidents = r4, pd_wildlifePopulations = r5,
                   pd_censusData = r6\<rparr>"
    by (simp add: park_combines ok_def)
  have pa_data: "data (getParkDashboard p1 p2 p3 p4 p5 p6) \<noteq> None \<longrightarrow>
        (\<exists>a1 a2 a3 a4 a5 a6.
           p1 = Inr a1 \<and> p2 = Inr a2 \<and> p3 = Inr a3 \<and> p4 = Inr a4 \<and> p5 = Inr a5 \<and> p6 = Inr a6
         \<and> getParkDashboard p1 p2 p3 p4 p5 p6
             = ok \<lparr>pd_stats = \<lparr>ps_parks = a1, ps_wildlifeSpecies = a2, ps_activePatrols = a3,
                                ps_incidentsCount = length a4\<rparr>,
                   pd_recentIncidents = a4, pd_wildlifePopulations = a5,
                   pd_censusData = a6\<rparr>)"
  proof
    assume "data (getParkDashboard p1 p2 p3 p4 p5 p6) \<noteq> None"
    then have "\<not> (isl p1 \<or> isl p2 \<or> isl p3 \<or> isl p4 \<or> isl p5 \<or> isl p6)"
      using park_fails[of p1 p2 p3 p4 p5 p6] by auto
    then obtain a1 a2 a3 a4 a5 a6 where
      "p1 = Inr a1" "p2 = Inr a2" "p3 = Inr a3" "p4 = Inr a4" "p5 = Inr a5" "p6 = Inr a6"
      by (cases p1; cases p2; cases p3; cases p4; cases p5; cases p6) auto
    then show "\<exists>a1 a2 a3 a4 a5 a6.
           p1 = Inr a1 \<and> p2 = Inr a2 \<and> p3 = Inr a3 \<and> p4 = Inr a4 \<and> p5 = Inr a5 \<and> p6 = Inr a6
         \<and> getParkDashboard p1 p2 p3 p4 p5 p6
             = ok \<lparr>pd_stats = \<lparr>ps_parks = a1, ps_wildlifeSpecies = a2, ps_activePatrols = a3,
                                ps_incidentsCount = length a4\<rparr>,
                   pd_recentIncidents = a4, pd_wildlifePopulations = a5,
                   pd_censusData = a6\<rparr>"
      by (simp add: park_combines ok_def)
  qed
  have la_fail: "isl l1 \<or> isl l2 \<or> isl l3 \<or> isl l4 \<or> isl l5 \<or> isl l6 \<longrightarrow>
      getLandDashboard l1 l2 l3 l4 l5 l6
        = \<lparr>status_code = 500, success = False,
           message = Some ''Failed to get land dashboard data'', data = None\<rparr>"
    using land_fails[of l1 l2 l3 l4 l5 l6] by blast
  have la_comb: "getLandDashboard (Inr z1) (Inr z2) (Inr z3) (Inr z4) (Inr z5) (Inr z6)
      = ok \<lparr>ld_stats = \<lparr>ls_totalZones = z1, ls_healthyZones = z2,
                                ls_degradedZones = z3, ls_healthRate = healthRate z2 z1\<rparr>,
                   ld_recentChanges = z4, ld_vegetationTrend = z5, ld_zones = z6\<rparr>"
    by (simp add: land_combines ok_def)
  have la_data: "data (getLandDashboard l1 l2 l3 l4 l5 l6) \<noteq> None \<longrightarrow>
        (\<exists>a1 a2 a3 a4 a5 a6.
           l1 = Inr a1 \<and> l2 = Inr a2 \<and> l3 = Inr a3 \<and> l4 = Inr a4 \<and> l5 = Inr a5 \<and> l6 = Inr a6
         \<and> getLandDashboard l1 l2 l3 l4 l5 l6
             = ok \<lparr>ld_stats = \<lparr>ls_totalZones = a1, ls_healthyZones = a2,
                                ls_degradedZones = a3, ls_healthRate = healthRate a2 a1\<rparr>,
                   ld_recentChanges = a4, ld_vegetationTrend = a5, ld_zones = a6\<rparr>)"
  proof
    assume "data (getLandDashboard l1 l2 l3 l4 l5 l6) \<noteq> None"
    then have "\<not> (isl l1 \<or> isl l2 \<or> isl l3 \<or> isl l4 \<or> isl l5 \<or> isl l6)"
      using land_fails[of l1 l2 l3 l4 l5 l6] by auto
    then obtain a1 a2 a3 a4 a5 a6 where
      "l1 = Inr a1" "l2 = Inr a2" "l3 = Inr a3" "l4 = Inr a4" "l5 = Inr a5" "l6 = Inr a6"
      by (cases l1; cases l2; cases l3; cases l4; cases l5; cases l6) auto
    then show "\<exists>a1 a2 a3 a4 a5 a6.
           l1 = Inr a1 \<and> l2 = Inr a2 \<and> l3 = Inr a3 \<and> l4 = Inr a4 \<and> l5 = Inr a5 \<and> l6 = Inr a6
         \<and> getLandDashboard l1 l2 l3 l4 l5 l6
             = ok \<lparr>ld_stats = \<lparr>ls_totalZones = a1, ls_healthyZones = a2,
                                ls_degradedZones = a3, ls_healthRate = healthRate a2 a1\<rparr>,
                   ld_recentChanges = a4, ld_vegetationTrend = a5, ld_zones = a6\<rparr>"
      by (simp add: land_combines ok_def)
  qed
  show ?thesis
    using ov_fail ov_comb ov_data fa_fail fa_comb fa_data pa_fail pa_comb pa_data la_fail la_comb la_data
    by (intro conjI)
qed

text \<open>
  One rejected query in each aggregation (the third, the first, the last and the fifth of
  the array) gives the 500 answer, and each aggregation with all its queries fulfilled
  gives the data built from them.
\<close>

theorem aggregation_all_or_nothing_witness:
  "getOverviewStats (Inr 4) (Inr 3) (Inl Rejected) (Inr 2) (Inr 6) (Inr 3) (Inr 5) (Inr [''login''])
     = \<lparr>status_code = 500, success = False,
        message = Some ''Failed to get overview statistics'', data = None\<rparr>
   \<and> getOverviewStats (Inr 4) (Inr 3) (Inr 430) (Inr 2) (Inr 6) (Inr 3) (Inr 5) (Inr [''login''])
     = ok \<lparr>ov_stats = \<lparr>ov_farms = 4, ov_herds = 3, ov_animals = 430, ov_parks = 2,
                                ov_wildlife = 6, ov_landZones = 3, ov_activeAlerts = 5\<rparr>,
                   ov_recentActivities = [''login'']\<rparr>
   \<and> getFarmDashboard (Inl Rejected) (Inr 230) (Inr 12) (Inr 3) (Inr [''Main Dairy Herd'']) (Inr [''a2'']) (Inr [(''FEVER'', 2 :: nat)])
     = \<lparr>status_code = 500, success = False,
        message = Some ''Failed to get farm dashboard data'', data = None\<rparr>
   \<and> getFarmDashboard (Inr 245) (Inr 230) (Inr 12) (Inr 3) (Inr [''Main Dairy Herd'']) (Inr [''a2'']) (Inr [(''FEVER'', 2 :: nat)])
     = ok \<lparr>fd_stats = \<lparr>fs_totalAnimals = 245, fs_healthyAnimals = 230,
                                fs_sickAnimals = 12, fs_missingAnimals = 3,
                                fs_healthRate = healthRate 230 245\<rparr>,
                   fd_herds = [''Main Dairy Herd''], fd_recentAlerts = [''a2''], fd_healthTrend = [(''FEVER'', 2 :: nat)]\<rparr>
   \<and> getParkDashboard (Inr 1) (Inr 6) (Inr 2) (Inr [''i1'']) (Inr [''elephant'']) (Inl Rejected :: (string \<times> nat) list promise)
     = \<lparr>status_code = 500, success = False,
        message = Some ''Failed to get park dashboard data'', data = None\<rparr>
   \<and> getParkDashboard (Inr 1) (Inr 6) (Inr 2) (Inr [''i1'']) (Inr [''elephant'']) (Inr [(''p1'', 40 :: nat)])
     = ok \<lparr>pd_stats = \<lparr>ps_parks = 1, ps_wildlifeSpecies = 6, ps_activePatrols = 2,
                                ps_incidentsCount = length [''i1'']\<rparr>,
                   pd_recentIncidents = [''i1''], pd_wildlifePopulations = [''elephant''],
                   pd_censusData = [(''p1'', 40 :: nat)]\<rparr>
   \<and> getLandDashboard (Inr 3) (Inr 1) (Inr 1) (Inr [''c1'']) (Inl Rejected :: (string \<times> rat) list promise) (Inr [''z1'', ''z2'', ''z3''])
     = \<lparr>status_code = 500, success = False,
        message = Some ''Failed to get land dashboard data'', data = None\<rparr>
   \<and> getLandDashboard (Inr 3) (Inr 1) (Inr 1) (Inr [''c1'']) (Inr [(''z1'', 1 / 2 :: rat)]) (Inr [''z1'', ''z2'', ''z3''])
     = ok \<lparr>ld_stats = \<lparr>ls_totalZones = 3, ls_healthyZones = 1,
                                ls_degradedZones = 1, ls_healthRate = healthRate 1 3\<rparr>,
                   ld_recentChanges = [''c1''], ld_vegetationTrend = [(''z1'', 1 / 2 :: rat)], ld_zones = [''z1'', ''z2'', ''z3'']\<rparr>"
proof -
  note all = aggregation_all_or_nothing
    [of "Inr 4"
        "Inr 3"
        "Inl Rejected"
        "Inr 2"
        "Inr 6"
        "Inr 3"
        "Inr 5"
        "Inr [''login'']"
        "4"
        "3"
        "430"
        "2"
        "6"
        "3"
        "5"
        "[''login'']"
        "Inl Rejected"
        "Inr 230"
        "Inr 12"
        "Inr 3"
        "Inr [''Main Dairy Herd'']"
        "Inr [''a2'']"
        "Inr [(''FEVER'', 2 :: nat)]"
        "245"
        "230"
        "12"
        "3"
        "[''Main Dairy Herd'']"
        "[''a2'']"
        "[(''FEVER'', 2 :: nat)]"
        "Inr 1"
        "Inr 6"
        "Inr 2"
        "Inr [''i1'']"
        "Inr [''elephant'']"
        "Inl Rejected :: (string \<times> nat) list promise"
        "1"
        "6"
        "2"
        "[''i1'']"
        "[''elephant'']"
        "[(''p1'', 40 :: nat)]"
        "Inr 3"
        "Inr 1"
        "Inr 1"
        "Inr [''c1'']"
        "Inl Rejected :: (string \<times> rat) list promise"
        "Inr [''z1'', ''z2'', ''z3'']"
        "3"
        "1"
        "1"
        "[''c1'']"
        "[(''z1'', 1 / 2 :: rat)]"
        "[''z1'', ''z2'', ''z3'']"]
  have rejected: "isl (Inl Rejected :: nat promise)"
    "isl (Inl Rejected :: (string \<times> nat) list promise)"
    "isl (Inl Rejected :: (string \<times> rat) list promise)"
    by simp_all
  have c0: "getOverviewStats (Inr 4) (Inr 3) (Inl Rejected) (Inr 2) (Inr 6) (Inr 3) (Inr 5) (Inr [''login''])
     = \<lparr>status_code = 500, success = False,
        message = Some ''Failed to get overview statistics'', data = None\<rparr>"
    using all rejected by blast
  have c1: "getOverviewStats (Inr 4) (Inr 3) (Inr 430) (Inr 2) (Inr 6) (Inr 3) (Inr 5) (Inr [''login''])
     = ok \<lparr>ov_stats = \<lparr>ov_farms = 4, ov_herds = 3, ov_animals = 430, ov_parks = 2,
                                ov_wildlife = 6, ov_landZones = 3, ov_activeAlerts = 5\<rparr>,
                   ov_recentActivities = [''login'']\<rparr>"
    using all rejected by blast
  have c2: "getFarmDashboard (Inl Rejected) (Inr 230) (Inr 12) (Inr 3) (Inr [''Main Dairy Herd'']) (Inr [''a2'']) (Inr [(''FEVER'', 2 :: nat)])
     = \<lparr>status_code = 500, success = False,
        message = Some ''Failed to get farm dashboard data'', data = None\<rparr>"
    using all rejected by blast
  have c3: "getFarmDashboard (Inr 245) (Inr 230) (Inr 12) (Inr 3) (Inr [''Main Dairy Herd'']) (Inr [''a2'']) (Inr [(''FEVER'', 2 :: nat)])
     = ok \<lparr>fd_stats = \<lparr>fs_totalAnimals = 245, fs_healthyAnimals = 230,
                                fs_sickAnimals = 12, fs_missingAnimals = 3,
                                fs_healthRate = healthRate 230 245\<rparr>,
                   fd_herds = [''Main Dairy Herd''], fd_recentAlerts = [''a2''], fd_healthTrend = [(''FEVER'', 2 :: nat)]\<rparr>"
    using all rejected by blast
  have c4: "getParkDashboard (Inr 1) (Inr 6) (Inr 2) (Inr [''i1'']) (Inr [''elephant'']) (Inl Rejected :: (string \<times> nat) list promise)
     = \<lparr>status_code = 500, success = False,
        message = Some ''Failed to get park dashboard data'', data = None\<rparr>"
    using all rejected by blast
  have c5: "getParkDashboard (Inr 1) (Inr 6) (Inr 2) (Inr [''i1'']) (Inr [''elephant'']) (Inr [(''p1'', 40 :: nat)])
     = ok \<lparr>pd_stats = \<lparr>ps_parks = 1, ps_wildlifeSpecies = 6, ps_activePatrols = 2,
                                ps_incidentsCount = length [''i1'']\<rparr>,
                   pd_recentIncidents = [''i1''], pd_wildlifePopulations = [''elephant''],
                   pd_censusData = [(''p1'', 40 :: nat)]\<rparr>"
    using all rejected by blast
  have c6: "getLandDashboard (Inr 3) (Inr 1) (Inr 1) (Inr [''c1'']) (Inl Rejected :: (string \<times> rat) list promise) (Inr [''z1'', ''z2'', ''z3''])
     = \<lparr>status_code = 500, success = False,
        message = Some ''Failed to get land dashboard data'', data = None\<rparr>"
    using all rejected by blast
  have c7: "getLandDashboard (Inr 3) (Inr 1) (Inr 1) (Inr [''c1'']) (Inr [(''z1'', 1 / 2 :: rat)]) (Inr [''z1'', ''z2'', ''z3''])
     = ok \<lparr>ld_stats = \<lparr>ls_totalZones = 3, ls_healthyZones = 1,
                                ls_degradedZones = 1, ls_healthRate = healthRate 1 3\<rparr>,
                   ld_recentChanges = [''c1''], ld_vegetationTrend = [(''z1'', 1 / 2 :: rat)], ld_zones = [''z1'', ''z2'', ''z3'']\<rparr>"
    using all rejected by blast
  show ?thesis
    using c0 c1 c2 c3 c4 c5 c6 c7 by (intro conjI)
qed

lemma zone_partition:
  "length zs = length (filter (degradationWhere (Some (Lt 30))) zs)
             + length (filter (degradationWhere (Some (Gte 60))) zs)
             + length (filter (\<lambda>z. case zone_degradationLevel z of
                                      None \<Rightarrow> True | Some v \<Rightarrow> 30 \<le> v \<and> v < 60) zs)"
  by (induction zs) (auto simp: degradationWhere_def split: option.splits)

text \<open>
  Claim C5. In a land-dashboard answer built from the three count queries, \<open>totalZones\<close>
  counts every zone, \<open>healthyZones\<close> those with a level below 30 and \<open>degradedZones\<close>
  those with a level of 60 or more. The zones left over are those with a level from 30 up
  to, but not including, 60, and those without a level; so
  \<open>healthyZones + degradedZones \<le> totalZones\<close>, and when every zone has a level the
  inequality is strict exactly when some zone lies in the band.
\<close>

theorem land_zone_buckets:
  assumes "data (getLandDashboard (Inr (landZone_count d None))
                                  (Inr (landZone_count d (Some (Lt 30))))
                                  (Inr (landZone_count d (Some (Gte 60))))
                                  changesQ trendQ zonesQ) = Some out"
  shows "ls_totalZones (ld_stats out) = length (landZones d)
       \<and> ls_healthyZones (ld_stats out)
           = length (filter (\<lambda>z. \<exists>v. zone_degradationLevel z = Some v \<and> v < 30) (landZones d))
       \<and> ls_degradedZones (ld_stats out)
           = length (filter (\<lambda>z. \<exists>v. zone_degradationLevel z = Some v \<and> 60 \<le> v) (landZones d))
       \<and> ls_totalZones (ld_stats out)
           = ls_healthyZones (ld_stats out) + ls_degradedZones (ld_stats out)
             + length (filter (\<lambda>z. case zone_degradationLevel z of
                                      None \<Rightarrow> True | Some v \<Rightarrow> 30 \<le> v \<and> v < 60) (landZones d))
       \<and> ls_healthyZones (ld_stats out) + ls_degradedZones (ld_stats out)
           \<le> ls_totalZones (ld_stats out)
       \<and> ((\<forall>z \<in> set (landZones d). zone_degradationLevel z \<noteq> None) \<longrightarrow>
            (ls_healthyZones (ld_stats out) + ls_degradedZones (ld_stats out)
               < ls_totalZones (ld_stats out)
             \<longleftrightarrow> (\<exists>z \<in> set (landZones d). \<exists>v. zone_degradationLevel z = Some v
                                                \<and> 30 \<le> v \<and> v < 60)))"
proof -
  let ?zs = "landZones d"
  let ?h = "length (filter (degradationWhere (Some (Lt 30))) ?zs)"
  let ?g = "length (filter (degradationWhere (Some (Gte 60))) ?zs)"
  let ?rest = "\<lambda>z. case zone_degradationLevel z of None \<Rightarrow> True | Some v \<Rightarrow> 30 \<le> v \<and> v < 60"
  let ?n = "length (filter ?rest ?zs)"
  from assms obtain c v z where
    out: "out = \<lparr>ld_stats = \<lparr>ls_totalZones = length ?zs, ls_healthyZones = ?h,
                             ls_degradedZones = ?g,
                             ls_healthRate = healthRate ?h (length ?zs)\<rparr>,
                 ld_recentChanges = c, ld_vegetationTrend = v, ld_zones = z\<rparr>"
    by (cases changesQ; cases trendQ; cases zonesQ)
       (auto simp: getLandDashboard_def both_def ok_def failure_def landZone_count_def
                   degradationWhere_def)
  have t: "ls_totalZones (ld_stats out) = length ?zs"
    and h: "ls_healthyZones (ld_stats out) = ?h"
    and g: "ls_degradedZones (ld_stats out) = ?g"
    using out by simp_all
  have h': "?h = length (filter (\<lambda>z. \<exists>v. zone_degradationLevel z = Some v \<and> v < 30) ?zs)"
    by (rule arg_cong[where f = length], rule filter_cong)
       (auto simp: degradationWhere_def split: option.splits)
  have g': "?g = length (filter (\<lambda>z. \<exists>v. zone_degradationLevel z = Some v \<and> 60 \<le> v) ?zs)"
    by (rule arg_cong[where f = length], rule filter_cong)
       (auto simp: degradationWhere_def split: option.splits)
  have part: "length ?zs = ?h + ?g + ?n"
    by (rule zone_partition)
  have strict: "?h + ?g < length ?zs \<longleftrightarrow> (\<exists>z \<in> set ?zs. ?rest z)"
  proof -
    have "?h + ?g < length ?zs \<longleftrightarrow> 0 < ?n" using part by linarith
    also have "\<dots> \<longleftrightarrow> (\<exists>z \<in> set ?zs. ?rest z)"
      by (auto simp: filter_empty_conv)
    finally show ?thesis .
  qed
  have pointwise: "?rest z \<longleftrightarrow> (\<exists>v. zone_degradationLevel z = Some v \<and> 30 \<le> v \<and> v < 60)"
    if "zone_degradationLevel z \<noteq> None" for z
    using that by (cases "zone_degradationLevel z") simp_all
  have rated: "(\<forall>z \<in> set ?zs. zone_degradationLevel z \<noteq> None) \<longrightarrow>
               ((\<exists>z \<in> set ?zs. ?rest z)
                \<longleftrightarrow> (\<exists>z \<in> set ?zs. \<exists>v. zone_degradationLevel z = Some v \<and> 30 \<le> v \<and> v < 60))"
  proof
    assume a: "\<forall>z \<in> set ?zs. zone_degradationLevel z \<noteq> None"
    show "(\<exists>z \<in> set ?zs. ?rest z)
          \<longleftrightarrow> (\<exists>z \<in> set ?zs. \<exists>v. zone_degradationLevel z = Some v \<and> 30 \<le> v \<and> v < 60)"
      by (rule bex_cong[OF refl]) (use a pointwise in blast)
  qed
  show ?thesis
    unfolding t h g using h' g' part strict rated by auto
qed

text \<open>
  The zones with levels 12, 38 and 60: one healthy, one degraded, three in all, and the
  zone at 38 is in neither bucket.
\<close>

theorem land_zone_buckets_witness:
  "data (getLandDashboard (Inr (landZone_count land_db None))
                          (Inr (landZone_count land_db (Some (Lt 30))))
                          (Inr (landZone_count land_db (Some (Gte 60))))
                          (Inr [''c1'']) (Inr [(''z1'', 1 / 2 :: rat)]) (Inr [''z1'', ''z2'', ''z3'']))
     = Some \<lparr>ld_stats = \<lparr>ls_totalZones = 3, ls_healthyZones = 1, ls_degradedZones = 1,
                          ls_healthRate = healthRate 1 3\<rparr>,
             ld_recentChanges = [''c1''], ld_vegetationTrend = [(''z1'', 1 / 2)],
             ld_zones = [''z1'', ''z2'', ''z3'']\<rparr>
   \<and> (1 :: nat) + 1 < 3
   \<and> (\<exists>z \<in> set (landZones land_db). \<exists>v. zone_degradationLevel z = Some v \<and> 30 \<le> v \<and> v < 60)"
proof -
  let ?out = "\<lparr>ld_stats = \<lparr>ls_totalZones = 3, ls_healthyZones = 1, ls_degradedZones = 1,
                          ls_healthRate = healthRate 1 3\<rparr>,
             ld_recentChanges = [''c1''], ld_vegetationTrend = [(''z1'', 1 / 2 :: rat)],
             ld_zones = [''z1'', ''z2'', ''z3'']\<rparr>"
  have c: "landZone_count land_db None = 3" "landZone_count land_db (Some (Lt 30)) = 1"
    "landZone_count land_db (Some (Gte 60)) = 1"
    by (simp_all add: landZone_count_def degradationWhere_def land_db_def)
  have d: "data (getLandDashboard (Inr (landZone_count land_db None))
                          (Inr (landZone_count land_db (Some (Lt 30))))
                          (Inr (landZone_count land_db (Some (Gte 60))))
                          (Inr [''c1'']) (Inr [(''z1'', 1 / 2 :: rat)]) (Inr [''z1'', ''z2'', ''z3'']))
             = Some ?out"
    unfolding c by (simp add: land_combines)
  have rated: "\<forall>z \<in> set (landZones land_db). zone_degradationLevel z \<noteq> None"
    by (simp add: land_db_def)
  from land_zone_buckets[OF d] rated
  have "(ls_healthyZones (ld_stats ?out) + ls_degradedZones (ld_stats ?out)
           < ls_totalZones (ld_stats ?out))
        \<longleftrightarrow> (\<exists>z \<in> set (landZones land_db). \<exists>v. zone_degradationLevel z = Some v
                                                \<and> 30 \<le> v \<and> v < 60)"
    by blast
  then have "\<exists>z \<in> set (landZones land_db). \<exists>v. zone_degradationLevel z = Some v
                                                \<and> 30 \<le> v \<and> v < 60"
    by simp
  then show ?thesis using d by simp
qed

subsection \<open>The health rate\<close>

lemma pow2_bitlen:
  assumes "0 < a"
  shows "(2::rat) powi (bitlen a - 1) \<le> of_int a" and "of_int a < (2::rat) powi (bitlen a)"
proof -
  from bitlen_bounds[OF assms] have lo: "2 ^ nat (bitlen a - 1) \<le> a" and hi: "a < 2 ^ nat (bitlen a)"
    by auto
  have ge1: "1 \<le> bitlen a"
    using assms bitlen_eq_zero_iff[of a] bitlen_nonneg[of a] by linarith
  have "(2::rat) powi (bitlen a - 1) = 2 ^ nat (bitlen a - 1)"
    using ge1 by (simp add: power_int_def)
  also have "\<dots> = of_int (2 ^ nat (bitlen a - 1))" by simp
  also have "\<dots> \<le> of_int a" using lo by (simp only: of_int_le_iff)
  finally show "(2::rat) powi (bitlen a - 1) \<le> of_int a" .
  have "(of_int a :: rat) < of_int (2 ^ nat (bitlen a))" using hi by (simp only: of_int_less_iff)
  also have "\<dots> = 2 ^ nat (bitlen a)" by simp
  also have "\<dots> = 2 powi (bitlen a)" using ge1 by (simp add: power_int_def)
  finally show "of_int a < (2::rat) powi (bitlen a)" .
qed

lemma ilog2_bounds:
  assumes "0 < q"
  shows "2 powi (ilog2 q) \<le> q" and "q < 2 powi (ilog2 q + 1)"
proof -
  obtain a b where ab: "quotient_of q = (a, b)" by (cases "quotient_of q")
  have b: "0 < b" using ab quotient_of_denom_pos by blast
  have q: "q = of_int a / of_int b" using ab quotient_of_div by blast
  have a: "0 < a"
    using assms b q by (simp add: zero_less_divide_iff)
  let ?k = "bitlen a - bitlen b"
  note A = pow2_bitlen[OF a] and B = pow2_bitlen[OF b]
  have bpos: "(0::rat) < of_int b" using b by simp
  have up: "q < 2 powi (?k + 1)"
  proof -
    have "q * of_int b = of_int a" using q bpos by simp
    also have "\<dots> < 2 powi (bitlen a)" by (rule A(2))
    also have "\<dots> = 2 powi (?k + 1) * 2 powi (bitlen b - 1)"
      by (simp add: power_int_add[symmetric])
    also have "\<dots> \<le> 2 powi (?k + 1) * of_int b"
      using B(1) by (intro mult_left_mono) simp_all
    finally show ?thesis using bpos by (simp add: mult_less_cancel_right)
  qed
  have low: "2 powi (?k - 1) \<le> q"
  proof -
    have "(2::rat) powi (?k - 1) * of_int b \<le> 2 powi (?k - 1) * 2 powi (bitlen b)"
      using B(2) by (intro mult_left_mono) simp_all
    also have "\<dots> = 2 powi (bitlen a - 1)"
      by (simp add: power_int_add[symmetric])
    also have "\<dots> \<le> of_int a" by (rule A(1))
    also have "\<dots> = q * of_int b" using q bpos by simp
    finally show ?thesis using bpos by (simp add: mult_le_cancel_right)
  qed
  show "2 powi (ilog2 q) \<le> q"
    using low by (simp add: ilog2_def ab Let_def)
  show "q < 2 powi (ilog2 q + 1)"
    using up by (auto simp: ilog2_def ab Let_def not_le)
qed

lemma roundEven_close: "\<bar>of_int (roundEven m) - m\<bar> \<le> 1 / 2"
proof -
  have "of_int \<lfloor>m\<rfloor> \<le> m" "m < of_int \<lfloor>m\<rfloor> + 1" by linarith+
  then show ?thesis
    by (auto simp: roundEven_def Let_def abs_le_iff)
qed

lemma toDouble_close:
  assumes "0 < q"
  shows "\<bar>toDouble q - q\<bar> \<le> q / 2 ^ 53"
proof -
  let ?e = "ilog2 q - 52"
  let ?P = "(2::rat) powi ?e"
  have P: "0 < ?P" by simp
  have td: "toDouble q = of_int (roundEven (q / ?P)) * ?P"
    using assms by (simp add: toDouble_def Let_def)
  have "\<bar>toDouble q - q\<bar> = \<bar>of_int (roundEven (q / ?P)) - q / ?P\<bar> * ?P"
  proof -
    have "toDouble q - q = (of_int (roundEven (q / ?P)) - q / ?P) * ?P"
      using P by (simp add: td algebra_simps)
    then show ?thesis using P by (simp add: abs_mult)
  qed
  also have "\<dots> \<le> (1 / 2) * ?P"
    using roundEven_close[of "q / ?P"] P by (simp add: mult_right_mono)
  also have "?P = 2 powi (ilog2 q) / 2 ^ 52"
    by (simp add: power_int_diff)
  also have "(1 / 2) * ((2::rat) powi (ilog2 q) / 2 ^ 52) = 2 powi (ilog2 q) / 2 ^ 53"
    by simp
  also have "\<dots> \<le> q / 2 ^ 53"
    using ilog2_bounds(1)[OF assms] by (simp add: divide_right_mono)
  finally show ?thesis .
qed


lemma abs_scale: "0 \<le> c \<Longrightarrow> \<bar>a * c - b * c\<bar> = \<bar>a - b\<bar> * (c :: rat)"
  by (simp add: left_diff_distrib[symmetric] abs_mult)

lemma abs_triangle: "\<bar>x - y\<bar> \<le> a \<Longrightarrow> \<bar>y - z\<bar> \<le> b \<Longrightarrow> \<bar>x - z\<bar> \<le> a + (b :: rat)"
  by linarith

lemma toDouble_zero: "toDouble 0 = 0"
  by (simp add: toDouble_def)

lemma rate_error:
  fixes h t :: nat
  assumes "0 < t" and "h \<le> t"
  shows "0 \<le> fmul (fdiv (of_nat h) (of_nat t)) 100"
    and "\<bar>fmul (fdiv (of_nat h) (of_nat t)) 100 - 100 * of_nat h / of_nat t\<bar> \<le> 300 / 2 ^ 53"
proof -
  let ?q = "of_nat h / of_nat t :: rat"
  let ?x1 = "toDouble ?q"
  let ?x = "toDouble (?x1 * 100)"
  define u :: rat where "u = 1 / 2 ^ 53"
  have u: "0 < u" "u < 1" by (simp_all add: u_def)
  have close: "\<bar>toDouble q - q\<bar> \<le> q * u" if "0 < q" for q
    using toDouble_close[OF that] by (simp add: u_def)
  have both: "0 \<le> ?x \<and> \<bar>?x - ?q * 100\<bar> \<le> 300 * u"
  proof (cases "h = 0")
    case True
    then show ?thesis using u by (simp add: toDouble_zero)
  next
    case False
    have tpos: "(0::rat) < of_nat t" using assms(1) by simp
    have q0: "0 < ?q" using False tpos by simp
    have q1: "?q \<le> 1" using assms tpos by simp
    have e1: "\<bar>?x1 - ?q\<bar> \<le> ?q * u" by (rule close[OF q0])
    have "?q * u \<le> 1 * u" using q1 u(1) by (intro mult_right_mono) simp_all
    then have small: "?q * u \<le> u" by (simp only: mult_1)
    have "?q * u < ?q * 1" using q0 u(2) by (intro mult_strict_left_mono) simp_all
    then have half: "?q * u < ?q" by (simp only: mult_1_right)
    have x1pos: "0 < ?x1" using e1 half by linarith
    have x1le: "?x1 \<le> 2" using e1 small q1 u(2) by linarith
    have q2: "0 < ?x1 * 100" using x1pos by simp
    have e2: "\<bar>?x - ?x1 * 100\<bar> \<le> ?x1 * 100 * u" by (rule close[OF q2])
    have b2: "?x1 * 100 * u \<le> 200 * u"
      using x1le u(1) by (intro mult_right_mono) simp_all
    have "?x1 * 100 * u < ?x1 * 100 * 1" using q2 u(2) by (intro mult_strict_left_mono) simp_all
    then have lt2: "?x1 * 100 * u < ?x1 * 100" by (simp only: mult_1_right)
    have xpos: "0 \<le> ?x" using e2 lt2 by linarith
    have e3: "\<bar>?x1 * 100 - ?q * 100\<bar> \<le> 100 * u"
    proof -
      have "\<bar>?x1 * 100 - ?q * 100\<bar> = \<bar>?x1 - ?q\<bar> * 100"
        by (rule abs_scale) simp
      also have "\<dots> \<le> u * 100" using e1 small by (intro mult_right_mono) linarith+
      finally show ?thesis by simp
    qed
    have e2': "\<bar>?x - ?x1 * 100\<bar> \<le> 200 * u"
      using e2 b2 by (rule order_trans)
    have "\<bar>?x - ?q * 100\<bar> \<le> 200 * u + 100 * u"
      using e2' e3 by (rule abs_triangle)
    then have "\<bar>?x - ?q * 100\<bar> \<le> 300 * u"
      by (simp only: distrib_right[symmetric]) simp
    then show ?thesis using xpos by simp
  qed
  have v: "100 * of_nat h / of_nat t = ?q * 100" by simp
  show "0 \<le> fmul (fdiv (of_nat h) (of_nat t)) 100"
    using both by (simp add: fmul_def fdiv_def)
  show "\<bar>fmul (fdiv (of_nat h) (of_nat t)) 100 - 100 * of_nat h / of_nat t\<bar> \<le> 300 / 2 ^ 53"
    unfolding v fmul_def fdiv_def using both by (simp add: u_def)
qed

lemma tenths_nearest:
  fixes h t :: nat and x :: rat
  assumes t: "0 < t" "t \<le> 2 ^ 40" and x: "0 \<le> x"
    and close: "\<bar>x - 100 * of_nat h / of_nat t\<bar> \<le> 300 / 2 ^ 53"
  shows "\<bar>(of_nat (tenths x) :: rat) / 10 - 100 * of_nat h / of_nat t\<bar> \<le> 1 / 20"
proof -
  define N where "N = \<lfloor>x * 10 + 1 / 2\<rfloor>"
  define T :: rat where "T = of_nat t"
  define V :: rat where "V = 1000 * of_nat h / of_nat t"
  have Tpos: "0 < T" using t by (simp add: T_def)
  have Tle: "T \<le> 2 ^ 40"
  proof -
    have "(of_nat t :: rat) \<le> of_nat (2 ^ 40)" using t(2) by (simp only: of_nat_le_iff)
    then show ?thesis by (simp add: T_def)
  qed
  have N0: "0 \<le> N" using x by (simp add: N_def)
  have fl: "of_int N \<le> x * 10 + 1 / 2" "x * 10 + 1 / 2 < of_int N + 1"
    unfolding N_def by linarith+
  have tn: "(of_nat (tenths x) :: rat) = of_int N"
    using N0 x by (simp add: tenths_def N_def abs_of_nonneg)
  define g :: rat where "g = 3000 / 2 ^ 53"
  have cl: "\<bar>x * 10 - V\<bar> \<le> g"
  proof -
    have "V = (100 * of_nat h / of_nat t) * 10" by (simp add: V_def)
    then have "\<bar>x * 10 - V\<bar> = \<bar>x - 100 * of_nat h / of_nat t\<bar> * 10"
      using abs_scale[of 10 x "100 * of_nat h / of_nat t"] by (simp only:)
    also have "\<dots> \<le> (300 / 2 ^ 53) * 10" using close by (intro mult_right_mono) simp_all
    finally show ?thesis by (simp add: g_def)
  qed
  have gap: "g < 1 / (2 * T)"
  proof -
    have "g < 1 / 2 ^ 41" by (simp add: g_def)
    also have "\<dots> \<le> 1 / (2 * T)"
      using Tpos Tle by (intro divide_left_mono) simp_all
    finally show ?thesis .
  qed
  have VT: "V * (2 * T) = of_int (2000 * int h)"
    using Tpos by (simp add: V_def T_def)
  have NT: "(of_int N + 1 / 2) * (2 * T) = of_int ((2 * N + 1) * int t)"
    by (simp add: T_def algebra_simps)
  have NT': "(of_int N - 1 / 2) * (2 * T) = of_int ((2 * N - 1) * int t)"
    by (simp add: T_def algebra_simps)
  have upper: "V \<le> of_int N + 1 / 2"
  proof (rule ccontr)
    assume "\<not> V \<le> of_int N + 1 / 2"
    then have "(of_int N + 1 / 2) * (2 * T) < V * (2 * T)"
      using Tpos by (simp add: mult_less_cancel_right)
    then have "(of_int ((2 * N + 1) * int t) :: rat) < of_int (2000 * int h)"
      by (simp only: VT NT)
    then have "(2 * N + 1) * int t < 2000 * int h" by (simp only: of_int_less_iff)
    then have "(2 * N + 1) * int t + 1 \<le> 2000 * int h" by simp
    then have "(of_int ((2 * N + 1) * int t + 1) :: rat) \<le> of_int (2000 * int h)"
      by (simp only: of_int_le_iff)
    then have "(of_int N + 1 / 2) * (2 * T) + 1 \<le> V * (2 * T)"
      by (simp only: VT NT[symmetric] of_int_add of_int_1)
    then have "of_int N + 1 / 2 + 1 / (2 * T) \<le> V"
      using Tpos by (simp add: field_simps)
    then show False using fl(2) cl gap by linarith
  qed
  have lower: "of_int N - 1 / 2 \<le> V"
  proof (rule ccontr)
    assume "\<not> of_int N - 1 / 2 \<le> V"
    then have "V * (2 * T) < (of_int N - 1 / 2) * (2 * T)"
      using Tpos by (simp add: mult_less_cancel_right)
    then have "(of_int (2000 * int h) :: rat) < of_int ((2 * N - 1) * int t)"
      by (simp only: VT NT')
    then have "2000 * int h < (2 * N - 1) * int t" by (simp only: of_int_less_iff)
    then have "2000 * int h + 1 \<le> (2 * N - 1) * int t" by simp
    then have "(of_int (2000 * int h + 1) :: rat) \<le> of_int ((2 * N - 1) * int t)"
      by (simp only: of_int_le_iff)
    then have "V * (2 * T) + 1 \<le> (of_int N - 1 / 2) * (2 * T)"
      by (simp only: VT[symmetric] NT' of_int_add of_int_1)
    then have "V + 1 / (2 * T) \<le> of_int N - 1 / 2"
      using Tpos by (simp add: field_simps)
    then show False using fl(1) cl gap by linarith
  qed
  have "\<bar>of_int N / 10 - V / 10\<bar> \<le> 1 / 20"
    using upper lower by linarith
  moreover have "V / 10 = 100 * of_nat h / of_nat t" by (simp add: V_def)
  ultimately show ?thesis by (simp add: tn)
qed

lemma healthRate_nearest_tenth:
  assumes "0 < t" and "h \<le> t" and "t \<le> 2 ^ 40"
  shows "healthRate h t = decimal (tenths (fmul (fdiv (of_nat h) (of_nat t)) 100) div 10) @ ''.''
                          @ decimal (tenths (fmul (fdiv (of_nat h) (of_nat t)) 100) mod 10)"
    and "\<bar>(of_nat (tenths (fmul (fdiv (of_nat h) (of_nat t)) 100)) :: rat)
           - 10 * fmul (fdiv (of_nat h) (of_nat t)) 100\<bar> \<le> 1 / 2"
    and "\<bar>(of_nat (tenths (fmul (fdiv (of_nat h) (of_nat t)) 100)) :: rat) / 10
           - 100 * of_nat h / of_nat t\<bar> \<le> 1 / 20"
proof -
  let ?x = "fmul (fdiv (of_nat h) (of_nat t)) 100"
  note x = rate_error[OF assms(1,2)]
  show "healthRate h t = decimal (tenths ?x div 10) @ ''.'' @ decimal (tenths ?x mod 10)"
    using assms(1) x(1) by (simp add: healthRate_def toFixed1_def)
  have "of_int \<lfloor>?x * 10 + 1 / 2\<rfloor> \<le> ?x * 10 + 1 / 2"
    and "?x * 10 + 1 / 2 < of_int \<lfloor>?x * 10 + 1 / 2\<rfloor> + 1"
    by linarith+
  moreover have "(of_nat (tenths ?x) :: rat) = of_int \<lfloor>?x * 10 + 1 / 2\<rfloor>"
    using x(1) by (simp add: tenths_def abs_of_nonneg)
  ultimately show "\<bar>(of_nat (tenths ?x) :: rat) - 10 * ?x\<bar> \<le> 1 / 2"
    by linarith
  show "\<bar>(of_nat (tenths ?x) :: rat) / 10 - 100 * of_nat h / of_nat t\<bar> \<le> 1 / 20"
    by (rule tenths_nearest[OF assms(1,3) x(1) x(2)])
qed

lemma animal_count_healthy_le_total:
  "animal_count d req (Some s) \<le> animal_count d req None"
  and "animal_count d req None \<le> length (animals d)"
proof -
  have "filter (\<lambda>a. animal_status a = s \<and> animalScope d req a) (animals d)
          = filter (\<lambda>a. animal_status a = s) (filter (animalScope d req) (animals d))"
    by (simp add: conj_commute)
  then show "animal_count d req (Some s) \<le> animal_count d req None"
    by (simp add: animal_count_def del: filter_filter)
  show "animal_count d req None \<le> length (animals d)"
    by (simp add: animal_count_def)
qed

text \<open>
  The double arithmetic decides a tie: 23 healthy animals of 80 are exactly 28.75 per
  cent, the product computed in doubles lies just below, and the rate reads 28.7; one
  animal of 400 is exactly 0.25 per cent also as a double, and the rate reads 0.3.
\<close>

lemma healthRate_ties: "healthRate 23 80 = ''28.7''" "healthRate 1 400 = ''0.3''"
  by code_simp+

lemma healthRate_seed: "healthRate 230 245 = ''93.9''"
  by code_simp

text \<open>
  Claim C4. In every farm-dashboard answer with data, the reported \<open>healthRate\<close> is the
  string \<open>0\<close> when \<open>totalAnimals\<close> is 0. When \<open>totalAnimals\<close> is positive (at most
  \<open>2\<^sup>4\<^sup>0\<close>, with \<open>healthyAnimals \<le> totalAnimals\<close>, as for the counts of a table and of a
  part of it), it is a decimal numeral with exactly one digit after the point: the digits
  of the integer \<open>n\<close> nearest to ten times the double \<open>(healthy / total) * 100\<close>, and
  \<open>n / 10\<close> is a nearest one-decimal value of the exact quotient
  \<open>100 * healthy / total\<close>, that is, within 0.05 of it.
\<close>

theorem farm_healthRate_rounded:
  assumes "data (getFarmDashboard totalQ healthyQ sickQ missingQ herdsQ alertsQ trendQ) = Some out"
  shows "totalQ = Inr (fs_totalAnimals (fd_stats out))
       \<and> healthyQ = Inr (fs_healthyAnimals (fd_stats out))
       \<and> (fs_totalAnimals (fd_stats out) = 0 \<longrightarrow> fs_healthRate (fd_stats out) = ''0'')
       \<and> (0 < fs_totalAnimals (fd_stats out)
          \<and> fs_healthyAnimals (fd_stats out) \<le> fs_totalAnimals (fd_stats out)
          \<and> fs_totalAnimals (fd_stats out) \<le> 2 ^ 40 \<longrightarrow>
            (\<exists>n. fs_healthRate (fd_stats out) = decimal (n div 10) @ ''.'' @ decimal (n mod 10)
                \<and> \<bar>(of_nat n :: rat)
                     - 10 * fmul (fdiv (of_nat (fs_healthyAnimals (fd_stats out)))
                                       (of_nat (fs_totalAnimals (fd_stats out)))) 100\<bar> \<le> 1 / 2
                \<and> \<bar>(of_nat n :: rat) / 10
                     - 100 * of_nat (fs_healthyAnimals (fd_stats out))
                         / of_nat (fs_totalAnimals (fd_stats out))\<bar> \<le> 1 / 20))"
proof -
  from assms have ok: "\<not> (isl totalQ \<or> isl healthyQ \<or> isl sickQ \<or> isl missingQ \<or> isl herdsQ
                          \<or> isl alertsQ \<or> isl trendQ)"
    using farm_fails[of totalQ healthyQ sickQ missingQ herdsQ alertsQ trendQ] by auto
  then obtain t h s m hs al tr where q: "totalQ = Inr t" "healthyQ = Inr h" "sickQ = Inr s"
    "missingQ = Inr m" "herdsQ = Inr hs" "alertsQ = Inr al" "trendQ = Inr tr"
    by (cases totalQ; cases healthyQ; cases sickQ; cases missingQ; cases herdsQ; cases alertsQ;
        cases trendQ) auto
  from assms have out: "out = \<lparr>fd_stats = \<lparr>fs_totalAnimals = t, fs_healthyAnimals = h,
                                  fs_sickAnimals = s, fs_missingAnimals = m,
                                  fs_healthRate = healthRate h t\<rparr>,
                     fd_herds = hs, fd_recentAlerts = al, fd_healthTrend = tr\<rparr>"
    unfolding q farm_combines by simp
  have sel: "fs_totalAnimals (fd_stats out) = t" "fs_healthyAnimals (fd_stats out) = h"
    "fs_healthRate (fd_stats out) = healthRate h t"
    using out by simp_all
  have zero: "t = 0 \<longrightarrow> healthRate h t = ''0''"
    by (simp add: healthRate_def)
  have pos: "0 < t \<and> h \<le> t \<and> t \<le> 2 ^ 40 \<longrightarrow>
            (\<exists>n. healthRate h t = decimal (n div 10) @ ''.'' @ decimal (n mod 10)
                \<and> \<bar>(of_nat n :: rat) - 10 * fmul (fdiv (of_nat h) (of_nat t)) 100\<bar> \<le> 1 / 2
                \<and> \<bar>(of_nat n :: rat) / 10 - 100 * of_nat h / of_nat t\<bar> \<le> 1 / 20)"
  proof
    assume a: "0 < t \<and> h \<le> t \<and> t \<le> 2 ^ 40"
    then have a1: "0 < t" and a2: "h \<le> t" and a3: "t \<le> 2 ^ 40" by simp_all
    note r = healthRate_nearest_tenth[OF a1 a2 a3]
    show "\<exists>n. healthRate h t = decimal (n div 10) @ ''.'' @ decimal (n mod 10)
                \<and> \<bar>(of_nat n :: rat) - 10 * fmul (fdiv (of_nat h) (of_nat t)) 100\<bar> \<le> 1 / 2
                \<and> \<bar>(of_nat n :: rat) / 10 - 100 * of_nat h / of_nat t\<bar> \<le> 1 / 20"
      using r by (intro exI[of _ "tenths (fmul (fdiv (of_nat h) (of_nat t)) 100)"] conjI)
  qed
  show ?thesis
    unfolding sel using q(1,2) zero pos by simp
qed

text \<open>
  The herd of the seed script: 230 healthy animals of 245 are reported as 93.9, which is
  within 0.05 of the exact 93.877...; a farm dashboard without animals reports 0.
\<close>

theorem farm_healthRate_rounded_witness:
  "data (getFarmDashboard (Inr 245) (Inr 230) (Inr 12) (Inr 3) (Inr [''Main Dairy Herd''])
           (Inr [''a2'']) (Inr [(''FEVER'', 2 :: nat)]))
     = Some \<lparr>fd_stats = \<lparr>fs_totalAnimals = 245, fs_healthyAnimals = 230, fs_sickAnimals = 12,
                          fs_missingAnimals = 3, fs_healthRate = ''93.9''\<rparr>,
             fd_herds = [''Main Dairy Herd''], fd_recentAlerts = [''a2''],
             fd_healthTrend = [(''FEVER'', 2)]\<rparr>
   \<and> (\<exists>n. ''93.9'' = decimal (n div 10) @ ''.'' @ decimal (n mod 10)
          \<and> \<bar>(of_nat n :: rat) / 10 - 100 * 230 / 245\<bar> \<le> 1 / 20)
   \<and> data (getFarmDashboard (Inr 0) (Inr 0) (Inr 0) (Inr 0) (Inr ([] :: string list))
           (Inr ([] :: string list)) (Inr ([] :: (string \<times> nat) list)))
     = Some \<lparr>fd_stats = \<lparr>fs_totalAnimals = 0, fs_healthyAnimals = 0, fs_sickAnimals = 0,
                          fs_missingAnimals = 0, fs_healthRate = ''0''\<rparr>,
             fd_herds = [], fd_recentAlerts = [], fd_healthTrend = []\<rparr>"
proof -
  let ?out = "\<lparr>fd_stats = \<lparr>fs_totalAnimals = 245, fs_healthyAnimals = 230, fs_sickAnimals = 12,
                          fs_missingAnimals = 3, fs_healthRate = ''93.9''\<rparr>,
             fd_herds = [''Main Dairy Herd''], fd_recentAlerts = [''a2''],
             fd_healthTrend = [(''FEVER'', 2 :: nat)]\<rparr>"
  let ?none = "getFarmDashboard (Inr 0) (Inr 0) (Inr 0) (Inr 0) (Inr ([] :: string list))
           (Inr ([] :: string list)) (Inr ([] :: (string \<times> nat) list))"
  have d: "data (getFarmDashboard (Inr 245) (Inr 230) (Inr 12) (Inr 3) (Inr [''Main Dairy Herd''])
           (Inr [''a2'']) (Inr [(''FEVER'', 2 :: nat)])) = Some ?out"
    by (simp add: farm_combines healthRate_seed)
  have hyp: "0 < fs_totalAnimals (fd_stats ?out)
          \<and> fs_healthyAnimals (fd_stats ?out) \<le> fs_totalAnimals (fd_stats ?out)
          \<and> fs_totalAnimals (fd_stats ?out) \<le> 2 ^ 40"
    by simp
  from farm_healthRate_rounded[OF d] hyp
  have "\<exists>n. fs_healthRate (fd_stats ?out) = decimal (n div 10) @ ''.'' @ decimal (n mod 10)
          \<and> \<bar>(of_nat n :: rat) / 10
               - 100 * of_nat (fs_healthyAnimals (fd_stats ?out))
                   / of_nat (fs_totalAnimals (fd_stats ?out))\<bar> \<le> 1 / 20"
    by blast
  then have 1: "\<exists>n. ''93.9'' = decimal (n div 10) @ ''.'' @ decimal (n mod 10)
          \<and> \<bar>(of_nat n :: rat) / 10 - 100 * 230 / 245\<bar> \<le> 1 / 20"
    by simp
  obtain out0 where d0: "data ?none = Some out0"
    by (simp add: farm_combines)
  from d0 have out0: "out0 = \<lparr>fd_stats = \<lparr>fs_totalAnimals = 0, fs_healthyAnimals = 0,
                                  fs_sickAnimals = 0, fs_missingAnimals = 0,
                                  fs_healthRate = healthRate 0 0\<rparr>,
                     fd_herds = [], fd_recentAlerts = [], fd_healthTrend = []\<rparr>"
    by (simp add: farm_combines)
  from farm_healthRate_rounded[OF d0] out0 have "fs_healthRate (fd_stats out0) = ''0''"
    by simp
  then have 2: "data ?none
     = Some \<lparr>fd_stats = \<lparr>fs_totalAnimals = 0, fs_healthyAnimals = 0, fs_sickAnimals = 0,
                          fs_missingAnimals = 0, fs_healthRate = ''0''\<rparr>,
             fd_herds = [], fd_recentAlerts = [], fd_healthTrend = []\<rparr>"
    using d0 out0 by simp
  show ?thesis using d 1 2 by blast
qed

end
